theory Spec2Isabelle
  imports Complex_Main
begin

section \<open>Numbers\<close>

text \<open>
  The filter computes on numpy arrays of binary64 numbers. A value is a real number or one of
  the three special values of IEEE arithmetic. The result of a finite operation goes through
  \<open>rnd\<close>: it overflows to an infinity from \<open>2^1024 - 2^970\<close> on and underflows to zero
  up to \<open>2^-1075\<close>, as a binary64 result does under rounding to nearest. Between the two
  bounds the result is kept as it is: the rounding of the significand to 53 bits is not
  modelled, nor is the sign of zero. A division by zero produces what numpy produces (an
  infinity, or NaN for 0/0), and a NaN propagates.
\<close>

datatype f64 = Fin real | PInf | NInf | NaN

definition rnd :: "real \<Rightarrow> f64" where
  "rnd r =
     (if 2 ^ 1024 - 2 ^ 970 \<le> \<bar>r\<bar> then (if 0 < r then PInf else NInf)
      else if \<bar>r\<bar> \<le> 1 / 2 ^ 1075 then Fin 0
      else Fin r)"

instantiation f64 :: "{plus, minus, uminus, times, inverse}"
begin

fun plus_f64 :: "f64 \<Rightarrow> f64 \<Rightarrow> f64" where
  "Fin x + Fin y = rnd (x + y)"
| "NaN + _ = NaN"
| "_ + NaN = NaN"
| "PInf + NInf = NaN"
| "NInf + PInf = NaN"
| "PInf + _ = PInf"
| "_ + PInf = PInf"
| "NInf + _ = NInf"
| "_ + NInf = NInf"

fun uminus_f64 :: "f64 \<Rightarrow> f64" where
  "- Fin x = Fin (- x)"
| "- PInf = NInf"
| "- NInf = PInf"
| "- NaN = NaN"

definition minus_f64 :: "f64 \<Rightarrow> f64 \<Rightarrow> f64" where
  "minus_f64 x y = x + (- y)"

fun times_f64 :: "f64 \<Rightarrow> f64 \<Rightarrow> f64" where
  "Fin x * Fin y = rnd (x * y)"
| "NaN * _ = NaN"
| "_ * NaN = NaN"
| "PInf * Fin y = (if y = 0 then NaN else if 0 < y then PInf else NInf)"
| "NInf * Fin y = (if y = 0 then NaN else if 0 < y then NInf else PInf)"
| "Fin x * PInf = (if x = 0 then NaN else if 0 < x then PInf else NInf)"
| "Fin x * NInf = (if x = 0 then NaN else if 0 < x then NInf else PInf)"
| "PInf * PInf = PInf"
| "PInf * NInf = NInf"
| "NInf * PInf = NInf"
| "NInf * NInf = PInf"

fun divide_f64 :: "f64 \<Rightarrow> f64 \<Rightarrow> f64" where
  "divide_f64 (Fin x) (Fin y) =
     (if y = 0 then (if x = 0 then NaN else if 0 < x then PInf else NInf)
      else rnd (x / y))"
| "divide_f64 NaN _ = NaN"
| "divide_f64 _ NaN = NaN"
| "divide_f64 (Fin x) PInf = Fin 0"
| "divide_f64 (Fin x) NInf = Fin 0"
| "divide_f64 PInf (Fin y) = (if 0 \<le> y then PInf else NInf)"
| "divide_f64 NInf (Fin y) = (if 0 \<le> y then NInf else PInf)"
| "divide_f64 PInf _ = NaN"
| "divide_f64 NInf _ = NaN"

definition inverse_f64 :: "f64 \<Rightarrow> f64" where
  "inverse_f64 x = Fin 1 div x"

instance ..

end

text \<open>\<open>np.sqrt\<close>, as \<open>np.linalg.norm\<close> applies it to a sum of squares.\<close>

fun fsqrt :: "f64 \<Rightarrow> f64" where
  "fsqrt (Fin x) = (if x < 0 then NaN else rnd (sqrt x))"
| "fsqrt PInf = PInf"
| "fsqrt NInf = NaN"
| "fsqrt NaN = NaN"

text \<open>\<open>x**2\<close> on a binary64 number.\<close>

definition pow2 :: "f64 \<Rightarrow> f64" where
  "pow2 x = x * x"

fun is_fin :: "f64 \<Rightarrow> bool" where
  "is_fin (Fin x) = True"
| "is_fin _ = False"


section \<open>Arrays\<close>

text \<open>
  A tri-axial sample is an array of three numbers, a quaternion an array of four,
  \<open>(w, x, y, z)\<close>. The functions below are the numpy operations the filter applies to them.
\<close>

type_synonym vec3 = "f64 \<times> f64 \<times> f64"
type_synonym quat = "f64 \<times> f64 \<times> f64 \<times> f64"

fun linalg_norm2 :: "f64 \<times> f64 \<Rightarrow> f64" where
  "linalg_norm2 (x, y) = fsqrt (x * x + y * y)"

fun linalg_norm3 :: "vec3 \<Rightarrow> f64" where
  "linalg_norm3 (x, y, z) = fsqrt (x * x + y * y + z * z)"

fun linalg_norm4 :: "quat \<Rightarrow> f64" where
  "linalg_norm4 (w, x, y, z) = fsqrt (w * w + x * x + y * y + z * z)"

text \<open>\<open>v /= n\<close>: every element divided by the scalar.\<close>

fun idiv3 :: "vec3 \<Rightarrow> f64 \<Rightarrow> vec3" where
  "idiv3 (x, y, z) n = (x / n, y / n, z / n)"

fun idiv4 :: "quat \<Rightarrow> f64 \<Rightarrow> quat" where
  "idiv4 (w, x, y, z) n = (w / n, x / n, y / n, z / n)"

text \<open>\<open>c * v\<close>, \<open>v * c\<close>, \<open>u + v\<close> and \<open>u - v\<close>, element by element.\<close>

fun smul3 :: "f64 \<Rightarrow> vec3 \<Rightarrow> vec3" where
  "smul3 c (x, y, z) = (c * x, c * y, c * z)"

fun smul4 :: "f64 \<Rightarrow> quat \<Rightarrow> quat" where
  "smul4 c (w, x, y, z) = (c * w, c * x, c * y, c * z)"

fun muls4 :: "quat \<Rightarrow> f64 \<Rightarrow> quat" where
  "muls4 (w, x, y, z) c = (w * c, x * c, y * c, z * c)"

fun add4 :: "quat \<Rightarrow> quat \<Rightarrow> quat" where
  "add4 (a, b, c, d) (w, x, y, z) = (a + w, b + x, c + y, d + z)"

fun sub4 :: "quat \<Rightarrow> quat \<Rightarrow> quat" where
  "sub4 (a, b, c, d) (w, x, y, z) = (a - w, b - x, c - y, d - z)"


section \<open>Quaternion algebra\<close>

text \<open>
  Modelled from the spec: \<open>q_prod\<close> and \<open>q_conj\<close> come from
  \<open>ahrs.common.orientation\<close>, which is not among the sources. The spec describes them as
  the Hamilton product of two quaternions \<open>(w, x, y, z)\<close> and the conjugate, which negates
  the vector part.
\<close>

fun q_prod :: "quat \<Rightarrow> quat \<Rightarrow> quat" where
  "q_prod (pw, px, py, pz) (qw, qx, qy, qz) =
     (pw * qw - px * qx - py * qy - pz * qz,
      pw * qx + px * qw + py * qz - pz * qy,
      pw * qy - px * qz + py * qw + pz * qx,
      pw * qz + px * qy - py * qx + pz * qw)"

fun q_conj :: "quat \<Rightarrow> quat" where
  "q_conj (w, x, y, z) = (w, - x, - y, - z)"


section \<open>The Madgwick filter\<close>

text \<open>
  The class keeps its two parameters in a dictionary that always holds both keys; the
  constructor updates it with its keyword arguments, and each update lets a keyword argument
  of the call override it.
\<close>

record config =
  cfg_beta :: f64
  cfg_samplePeriod :: f64

type_synonym kwargs = "string \<rightharpoonup> f64"

definition Madgwick_dict :: config where
  "Madgwick_dict = \<lparr>cfg_beta = Fin (1 / 10), cfg_samplePeriod = Fin (1 / 256)\<rparr>"

definition Madgwick_init :: "config \<Rightarrow> kwargs \<Rightarrow> config" where
  "Madgwick_init d kwargs =
     \<lparr>cfg_beta = (case kwargs ''beta'' of Some v \<Rightarrow> v | None \<Rightarrow> cfg_beta d),
      cfg_samplePeriod =
        (case kwargs ''samplePeriod'' of Some v \<Rightarrow> v | None \<Rightarrow> cfg_samplePeriod d)\<rparr>"

definition read_beta :: "config \<Rightarrow> kwargs \<Rightarrow> f64" where
  "read_beta self kwargs = (case kwargs ''beta'' of Some v \<Rightarrow> v | None \<Rightarrow> cfg_beta self)"

definition read_samplePeriod :: "config \<Rightarrow> kwargs \<Rightarrow> f64" where
  "read_samplePeriod self kwargs =
     (case kwargs ''samplePeriod'' of Some v \<Rightarrow> v | None \<Rightarrow> cfg_samplePeriod self)"

subsection \<open>updateIMU\<close>

text \<open>The error vector \<open>F\<close> and the matrix \<open>J\<close> (its three rows) of \<open>updateIMU\<close>.\<close>

fun F_IMU :: "quat \<Rightarrow> vec3 \<Rightarrow> vec3" where
  "F_IMU (qw, qx, qy, qz) (a0, a1, a2) =
     (Fin 2 * (qx * qz - qw * qy) - a0,
      Fin 2 * (qw * qx + qy * qz) - a1,
      Fin 2 * (Fin (1 / 2) - pow2 qx - pow2 qy) - a2)"

fun J_IMU :: "quat \<Rightarrow> quat \<times> quat \<times> quat" where
  "J_IMU (qw, qx, qy, qz) =
     ((Fin (- 2) * qy, Fin 2 * qz, Fin (- 2) * qw, Fin 2 * qx),
      (Fin 2 * qx, Fin 2 * qw, Fin 2 * qz, Fin 2 * qy),
      (Fin 0, Fin (- 4) * qx, Fin (- 4) * qy, Fin 0))"

text \<open>\<open>J.T @ F\<close> for a matrix of three rows.\<close>

fun JT_F3 :: "quat \<times> quat \<times> quat \<Rightarrow> vec3 \<Rightarrow> quat" where
  "JT_F3 ((j00, j01, j02, j03), (j10, j11, j12, j13), (j20, j21, j22, j23)) (f0, f1, f2) =
     (j00 * f0 + j10 * f1 + j20 * f2,
      j01 * f0 + j11 * f1 + j21 * f2,
      j02 * f0 + j12 * f1 + j22 * f2,
      j03 * f0 + j13 * f1 + j23 * f2)"

text \<open>
  The arguments are numpy arrays of binary64 numbers. The arrays \<open>a\<close> and \<open>q\<close> belong
  to the caller and are changed in place; the record holds their contents when the call
  returns. The call returns the array \<open>q\<close> itself, so \<open>q_arr\<close> is also the returned
  quaternion. The arguments are taken to be distinct arrays.
\<close>

record imu_arrays =
  a_arr :: vec3
  q_arr :: quat

definition updateIMU :: "config \<Rightarrow> kwargs \<Rightarrow> vec3 \<Rightarrow> vec3 \<Rightarrow> quat \<Rightarrow> imu_arrays" where
  "updateIMU self kwargs g a q =
     (let beta = read_beta self kwargs;
          samplePeriod = read_samplePeriod self kwargs;
          a_norm = linalg_norm3 a
      in if a_norm = Fin 0 then \<lparr>a_arr = a, q_arr = q\<rparr>
         else
           let a = idiv3 a a_norm;
               q = idiv4 q (linalg_norm4 q);
               F = F_IMU q a;
               J = J_IMU q;
               step = JT_F3 J F;
               step = idiv4 step (linalg_norm4 step);
               qDot = sub4 (smul4 (Fin (1 / 2))
                        (q_prod q (Fin 0, fst g, fst (snd g), snd (snd g))))
                        (smul4 beta step);
               q = add4 q (muls4 qDot samplePeriod);
               q = idiv4 q (linalg_norm4 q)
           in \<lparr>a_arr = a, q_arr = q\<rparr>)"

subsection \<open>updateMARG\<close>

text \<open>The rotated field \<open>h\<close> and the reference field \<open>b\<close> of \<open>updateMARG\<close>.\<close>

fun h_MARG :: "quat \<Rightarrow> vec3 \<Rightarrow> quat" where
  "h_MARG q (m0, m1, m2) = q_prod q (q_prod (Fin 0, m0, m1, m2) (q_conj q))"

fun b_MARG :: "quat \<Rightarrow> quat" where
  "b_MARG (h0, h1, h2, h3) = (Fin 0, linalg_norm2 (h1, h2), Fin 0, h3)"

type_synonym vec6 = "f64 \<times> f64 \<times> f64 \<times> f64 \<times> f64 \<times> f64"

fun F_MARG :: "quat \<Rightarrow> quat \<Rightarrow> vec3 \<Rightarrow> vec3 \<Rightarrow> vec6" where
  "F_MARG (qw, qx, qy, qz) (b0, b1, b2, b3) (a0, a1, a2) (m0, m1, m2) =
     (Fin 2 * (qx * qz - qw * qy) - a0,
      Fin 2 * (qw * qx + qy * qz) - a1,
      Fin 2 * (Fin (1 / 2) - pow2 qx - pow2 qy) - a2,
      Fin 2 * b1 * (Fin (1 / 2) - pow2 qy - pow2 qz) + Fin 2 * b3 * (qx * qz - qw * qy) - m0,
      Fin 2 * b1 * (qx * qy - qw * qz) + Fin 2 * b3 * (qw * qx + qy * qz) - m1,
      Fin 2 * b1 * (qw * qy + qx * qz) + Fin 2 * b3 * (Fin (1 / 2) - pow2 qx - pow2 qy) - m2)"

fun J_MARG :: "quat \<Rightarrow> quat \<Rightarrow> quat \<times> quat \<times> quat \<times> quat \<times> quat \<times> quat" where
  "J_MARG (qw, qx, qy, qz) (b0, b1, b2, b3) =
     ((Fin (- 2) * qy, Fin 2 * qz, Fin (- 2) * qw, Fin 2 * qx),
      (Fin 2 * qx, Fin 2 * qw, Fin 2 * qz, Fin 2 * qy),
      (Fin 0, Fin (- 4) * qx, Fin (- 4) * qy, Fin 0),
      (Fin (- 2) * b3 * qy, Fin 2 * b3 * qz,
       Fin (- 4) * b1 * qy - Fin 2 * b3 * qw, Fin (- 4) * b1 * qz + Fin 2 * b3 * qx),
      (Fin (- 2) * b1 * qz + Fin 2 * b3 * qx, Fin 2 * b1 * qy + Fin 2 * b3 * qw,
       Fin 2 * b1 * qx + Fin 2 * b3 * qz, Fin (- 2) * b1 * qw + Fin 2 * b3 * qy),
      (Fin 2 * b1 * qy, Fin 2 * b1 * qz - Fin 4 * b3 * qx,
       Fin 2 * b1 * qw - Fin 4 * b3 * qy, Fin 2 * b1 * qx))"

text \<open>\<open>J.T @ F\<close> for a matrix of six rows.\<close>

fun JT_F6 :: "quat \<times> quat \<times> quat \<times> quat \<times> quat \<times> quat \<Rightarrow> vec6 \<Rightarrow> quat" where
  "JT_F6 ((j00, j01, j02, j03), (j10, j11, j12, j13), (j20, j21, j22, j23),
          (j30, j31, j32, j33), (j40, j41, j42, j43), (j50, j51, j52, j53))
         (f0, f1, f2, f3, f4, f5) =
     (j00 * f0 + j10 * f1 + j20 * f2 + j30 * f3 + j40 * f4 + j50 * f5,
      j01 * f0 + j11 * f1 + j21 * f2 + j31 * f3 + j41 * f4 + j51 * f5,
      j02 * f0 + j12 * f1 + j22 * f2 + j32 * f3 + j42 * f4 + j52 * f5,
      j03 * f0 + j13 * f1 + j23 * f2 + j33 * f3 + j43 * f4 + j53 * f5)"

record marg_arrays =
  ma_arr :: vec3
  mm_arr :: vec3
  mq_arr :: quat

definition updateMARG ::
  "config \<Rightarrow> kwargs \<Rightarrow> vec3 \<Rightarrow> vec3 \<Rightarrow> vec3 \<Rightarrow> quat \<Rightarrow> marg_arrays" where
  "updateMARG self kwargs g a m q =
     (let beta = read_beta self kwargs;
          samplePeriod = read_samplePeriod self kwargs;
          a_norm = linalg_norm3 a
      in if a_norm = Fin 0 then \<lparr>ma_arr = a, mm_arr = m, mq_arr = q\<rparr>
         else
           let a = idiv3 a a_norm;
               m_norm = linalg_norm3 m
           in if m_norm = Fin 0 then \<lparr>ma_arr = a, mm_arr = m, mq_arr = q\<rparr>
              else
                let m = idiv3 m m_norm;
                    q = idiv4 q (linalg_norm4 q);
                    h = h_MARG q m;
                    b = b_MARG h;
                    F = F_MARG q b a m;
                    J = J_MARG q b;
                    step = JT_F6 J F;
                    step = idiv4 step (linalg_norm4 step);
                    qDot = sub4 (smul4 (Fin (1 / 2))
                             (q_prod q (Fin 0, fst g, fst (snd g), snd (snd g))))
                             (smul4 beta step);
                    q = add4 q (muls4 qDot samplePeriod);
                    q = idiv4 q (linalg_norm4 q)
                in \<lparr>ma_arr = a, mm_arr = m, mq_arr = q\<rparr>)"


section \<open>The operations as the specification names them\<close>

text \<open>
  \<open>normalize\<close> divides an array by its norm. \<open>qDot_spec\<close> is the rate of change
  \<open>0.5 * product(q, [0, gx, gy, gz]) - beta * step\<close> and \<open>q_next_spec\<close> the normalized
  integration step \<open>normalize(q + qDot * samplePeriod)\<close>. They are written out component by
  component. \<open>scale3\<close> is a sample multiplied by a constant before a call.
\<close>

fun normalize3 :: "vec3 \<Rightarrow> vec3" where
  "normalize3 (x, y, z) =
     (x / fsqrt (x * x + y * y + z * z),
      y / fsqrt (x * x + y * y + z * z),
      z / fsqrt (x * x + y * y + z * z))"

fun normalize4 :: "quat \<Rightarrow> quat" where
  "normalize4 (w, x, y, z) =
     (w / fsqrt (w * w + x * x + y * y + z * z),
      x / fsqrt (w * w + x * x + y * y + z * z),
      y / fsqrt (w * w + x * x + y * y + z * z),
      z / fsqrt (w * w + x * x + y * y + z * z))"

fun qDot_spec :: "f64 \<Rightarrow> vec3 \<Rightarrow> quat \<Rightarrow> quat \<Rightarrow> quat" where
  "qDot_spec beta (gx, gy, gz) q (s0, s1, s2, s3) =
     (case q_prod q (Fin 0, gx, gy, gz) of
        (p0, p1, p2, p3) \<Rightarrow>
          (Fin (1 / 2) * p0 - beta * s0,
           Fin (1 / 2) * p1 - beta * s1,
           Fin (1 / 2) * p2 - beta * s2,
           Fin (1 / 2) * p3 - beta * s3))"

fun q_next_spec :: "f64 \<Rightarrow> f64 \<Rightarrow> vec3 \<Rightarrow> quat \<Rightarrow> quat \<Rightarrow> quat" where
  "q_next_spec beta samplePeriod g (qw, qx, qy, qz) step =
     (case qDot_spec beta g (qw, qx, qy, qz) step of
        (d0, d1, d2, d3) \<Rightarrow>
          normalize4 (qw + d0 * samplePeriod, qx + d1 * samplePeriod,
                      qy + d2 * samplePeriod, qz + d3 * samplePeriod))"

definition scale3 :: "real \<Rightarrow> vec3 \<Rightarrow> vec3" where
  "scale3 c v = smul3 (Fin c) v"

fun fin3 :: "vec3 \<Rightarrow> bool" where
  "fin3 (x, y, z) = (is_fin x \<and> is_fin y \<and> is_fin z)"

fun fin4 :: "quat \<Rightarrow> bool" where
  "fin4 (w, x, y, z) = (is_fin w \<and> is_fin x \<and> is_fin y \<and> is_fin z)"

text \<open>The quaternion of four NaN; arrays that hold a NaN, or no finite number.\<close>

definition qNaN :: quat where
  "qNaN = (NaN, NaN, NaN, NaN)"

fun has_nan3 :: "vec3 \<Rightarrow> bool" where
  "has_nan3 (x, y, z) = (x = NaN \<or> y = NaN \<or> z = NaN)"

fun has_nan4 :: "quat \<Rightarrow> bool" where
  "has_nan4 (w, x, y, z) = (w = NaN \<or> x = NaN \<or> y = NaN \<or> z = NaN)"

fun no_fin4 :: "quat \<Rightarrow> bool" where
  "no_fin4 (w, x, y, z) = (\<not> is_fin w \<and> \<not> is_fin x \<and> \<not> is_fin y \<and> \<not> is_fin z)"

text \<open>A value that is \<open>+\<infinity>\<close> or NaN; a value that is not negative.\<close>

definition pinf_or_nan :: "f64 \<Rightarrow> bool" where
  "pinf_or_nan v = (v = PInf \<or> v = NaN)"

fun not_neg :: "f64 \<Rightarrow> bool" where
  "not_neg (Fin r) = (0 \<le> r)"
| "not_neg PInf = True"
| "not_neg NInf = False"
| "not_neg NaN = True"

text \<open>The gravity direction predicted from a quaternion, over the reals.\<close>

definition gravity_pred :: "real \<Rightarrow> real \<Rightarrow> real \<Rightarrow> real \<Rightarrow> real \<times> real \<times> real" where
  "gravity_pred qw qx qy qz =
     (2 * (qx * qz - qw * qy), 2 * (qw * qx + qy * qz), 2 * (1 / 2 - qx\<^sup>2 - qy\<^sup>2))"


section \<open>Facts about the numbers\<close>

lemma rnd_0 [simp]: "rnd 0 = Fin 0"
  by (simp add: rnd_def)

lemma rnd_exact: "1 / 2 ^ 1075 < \<bar>r\<bar> \<Longrightarrow> \<bar>r\<bar> < 2 ^ 1024 - 2 ^ 970 \<Longrightarrow> rnd r = Fin r"
  by (simp add: rnd_def)

lemma rnd_moderate [simp]: "1 / 2 ^ 64 \<le> \<bar>r\<bar> \<Longrightarrow> \<bar>r\<bar> \<le> 2 ^ 64 \<Longrightarrow> rnd r = Fin r"
proof (rule rnd_exact)
  assume lo: "1 / 2 ^ 64 \<le> \<bar>r\<bar>" and hi: "\<bar>r\<bar> \<le> 2 ^ 64"
  have "(1::real) / 2 ^ 1075 < 1 / 2 ^ 64" by simp
  with lo show "1 / 2 ^ 1075 < \<bar>r\<bar>" by linarith
  have "(2::real) ^ 64 < 2 ^ 1024 - 2 ^ 970" by simp
  with hi show "\<bar>r\<bar> < 2 ^ 1024 - 2 ^ 970" by linarith
qed

lemma rnd_nonneg: "0 \<le> r \<Longrightarrow> not_neg (rnd r)"
  by (simp add: rnd_def)

lemma plus_NaN_right [simp]: "x + NaN = NaN"
  by (cases x) simp_all

lemma times_NaN_right [simp]: "x * NaN = NaN"
  by (cases x) simp_all

lemma divide_NaN_right [simp]: "x / NaN = NaN"
  by (cases x) simp_all

lemma minus_NaN_right [simp]: "x - NaN = NaN"
  by (simp add: minus_f64_def)

lemma minus_NaN_left [simp]: "NaN - x = NaN"
  by (simp add: minus_f64_def)

lemma minus_Fin [simp]: "Fin x - Fin y = rnd (x - y)"
  by (simp add: minus_f64_def)

lemma pow2_Fin [simp]: "pow2 (Fin x) = rnd (x * x)"
  by (simp add: pow2_def)

lemma sqrt_64 [simp]: "sqrt 64 = 8"
  by (rule real_sqrt_unique) simp_all

lemma normalize3_eq: "normalize3 a = idiv3 a (linalg_norm3 a)"
  by (cases a) simp

lemma normalize4_eq: "normalize4 q = idiv4 q (linalg_norm4 q)"
  by (cases q) simp


section \<open>Degenerate references\<close>

text \<open>
  C3. \<open>updateIMU\<close> returns the prior quaternion unchanged when the norm of the accelerometer
  sample is zero, and \<open>updateMARG\<close> does when the norm of the accelerometer sample or of the
  magnetometer sample is zero, whatever the gyroscope sample, the quaternion and the
  configuration are. Nothing is raised: the call returns.
\<close>

theorem zero_norm_returns_q:
  "(linalg_norm3 a = Fin 0 \<longrightarrow> q_arr (updateIMU self kwargs g a q) = q) \<and>
   (linalg_norm3 a = Fin 0 \<or> linalg_norm3 m = Fin 0 \<longrightarrow>
      mq_arr (updateMARG self kwargs g a m q) = q)"
  by (simp add: updateIMU_def updateMARG_def Let_def)

theorem zero_norm_returns_q_witness:
  "linalg_norm3 (Fin 0, Fin 0, Fin 0) = Fin 0 \<and>
   q_arr (updateIMU Madgwick_dict Map.empty (Fin 1, Fin 2, Fin 3) (Fin 0, Fin 0, Fin 0)
            (Fin 3, Fin 0, Fin 4, Fin 0)) = (Fin 3, Fin 0, Fin 4, Fin 0) \<and>
   linalg_norm3 (Fin 0, Fin 0, Fin 2) \<noteq> Fin 0 \<and>
   mq_arr (updateMARG Madgwick_dict Map.empty (Fin 1, Fin 2, Fin 3) (Fin 0, Fin 0, Fin 2)
            (Fin 0, Fin 0, Fin 0) (Fin 3, Fin 0, Fin 4, Fin 0)) = (Fin 3, Fin 0, Fin 4, Fin 0)"
  using zero_norm_returns_q [of "(Fin 0, Fin 0, Fin 0)" Madgwick_dict Map.empty
      "(Fin 1, Fin 2, Fin 3)" "(Fin 3, Fin 0, Fin 4, Fin 0)" "(Fin 0, Fin 0, Fin 0)"]
    zero_norm_returns_q [of "(Fin 0, Fin 0, Fin 2)" Madgwick_dict Map.empty
      "(Fin 1, Fin 2, Fin 3)" "(Fin 3, Fin 0, Fin 4, Fin 0)" "(Fin 0, Fin 0, Fin 0)"]
  by simp

text \<open>
  C10. In \<open>updateMARG\<close>, when the norm of the accelerometer sample is not zero and the norm of
  the magnetometer sample is zero, the quaternion and the magnetometer array are left as they
  were, and the accelerometer array has been divided by its norm.
\<close>

theorem zero_mag_normalizes_accel:
  "linalg_norm3 a \<noteq> Fin 0 \<Longrightarrow> linalg_norm3 m = Fin 0 \<Longrightarrow>
   updateMARG self kwargs g a m q =
     \<lparr>ma_arr = idiv3 a (linalg_norm3 a), mm_arr = m, mq_arr = q\<rparr>"
  by (simp add: updateMARG_def Let_def)

theorem zero_mag_normalizes_accel_witness:
  "linalg_norm3 (Fin 0, Fin 0, Fin 2) \<noteq> Fin 0 \<and> linalg_norm3 (Fin 0, Fin 0, Fin 0) = Fin 0 \<and>
   updateMARG Madgwick_dict Map.empty (Fin 1, Fin 2, Fin 3) (Fin 0, Fin 0, Fin 2)
     (Fin 0, Fin 0, Fin 0) (Fin 3, Fin 0, Fin 4, Fin 0) =
     \<lparr>ma_arr = (Fin 0, Fin 0, Fin 1), mm_arr = (Fin 0, Fin 0, Fin 0),
      mq_arr = (Fin 3, Fin 0, Fin 4, Fin 0)\<rparr> \<and>
   (Fin 0, Fin 0, Fin 1) \<noteq> (Fin 0, Fin 0, Fin 2)"
  using zero_mag_normalizes_accel [of "(Fin 0, Fin 0, Fin 2)" "(Fin 0, Fin 0, Fin 0)"
      Madgwick_dict Map.empty "(Fin 1, Fin 2, Fin 3)" "(Fin 3, Fin 0, Fin 4, Fin 0)"]
  by simp


section \<open>Divisions by a zero norm\<close>

text \<open>
  C1. With the accelerometer sample \<open>[0, 0, 1]\<close> and the identity quaternion the descent
  direction \<open>J.T @ F\<close> is zero. The claim asks for the gyroscope integration alone there.
  Both updates divide the zero direction by its zero norm instead, and every component of
  the quaternion they return is NaN.
\<close>

theorem zero_step_gives_NaN:
  "JT_F3 (J_IMU (Fin 1, Fin 0, Fin 0, Fin 0))
         (F_IMU (Fin 1, Fin 0, Fin 0, Fin 0) (Fin 0, Fin 0, Fin 1)) = (Fin 0, Fin 0, Fin 0, Fin 0) \<and>
   q_arr (updateIMU Madgwick_dict Map.empty (Fin 1, Fin 2, Fin 3) (Fin 0, Fin 0, Fin 1)
            (Fin 1, Fin 0, Fin 0, Fin 0)) = (NaN, NaN, NaN, NaN) \<and>
   mq_arr (updateMARG Madgwick_dict Map.empty (Fin 1, Fin 2, Fin 3) (Fin 0, Fin 0, Fin 1)
            (Fin 1, Fin 0, Fin 0) (Fin 1, Fin 0, Fin 0, Fin 0)) = (NaN, NaN, NaN, NaN)"
  by (simp add: updateIMU_def updateMARG_def Let_def read_beta_def read_samplePeriod_def
      Madgwick_dict_def)

text \<open>
  C2. The claim asks for a quaternion of norm 1 on every input that is not degenerate. The
  inputs below are finite and not degenerate: the accelerometer sample and the quaternion
  have norm 1 and the descent direction is \<open>(0, 8, 0, 0)\<close>. With \<open>beta = 1\<close> and
  \<open>samplePeriod = 1\<close> the integration step \<open>q + qDot * samplePeriod\<close> is the zero
  quaternion; the last normalization, which has no guard either, divides 0 by 0, and the
  returned quaternion is four NaN, whose norm is not 1.
\<close>

theorem zero_integration_gives_NaN:
  "fin3 (Fin 0, Fin 0, Fin 0) \<and> fin3 (Fin 0, Fin 0, Fin 1) \<and> fin4 (Fin 0, Fin 1, Fin 0, Fin 0) \<and>
   linalg_norm3 (Fin 0, Fin 0, Fin 1) = Fin 1 \<and>
   linalg_norm4 (Fin 0, Fin 1, Fin 0, Fin 0) = Fin 1 \<and>
   JT_F3 (J_IMU (Fin 0, Fin 1, Fin 0, Fin 0))
         (F_IMU (Fin 0, Fin 1, Fin 0, Fin 0) (Fin 0, Fin 0, Fin 1)) = (Fin 0, Fin 8, Fin 0, Fin 0) \<and>
   add4 (Fin 0, Fin 1, Fin 0, Fin 0)
     (muls4 (sub4 (smul4 (Fin (1 / 2))
                     (q_prod (Fin 0, Fin 1, Fin 0, Fin 0) (Fin 0, Fin 0, Fin 0, Fin 0)))
                  (smul4 (Fin 1) (Fin 0, Fin 1, Fin 0, Fin 0))) (Fin 1)) =
     (Fin 0, Fin 0, Fin 0, Fin 0) \<and>
   q_arr (updateIMU Madgwick_dict [''beta'' \<mapsto> Fin 1, ''samplePeriod'' \<mapsto> Fin 1]
            (Fin 0, Fin 0, Fin 0) (Fin 0, Fin 0, Fin 1)
            (Fin 0, Fin 1, Fin 0, Fin 0)) = (NaN, NaN, NaN, NaN) \<and>
   linalg_norm4 (NaN, NaN, NaN, NaN) \<noteq> Fin 1"
  by (simp add: updateIMU_def Let_def read_beta_def read_samplePeriod_def)


section \<open>The regular path of both updates\<close>

lemma qDot_spec_eq:
  "qDot_spec beta g q step =
     sub4 (smul4 (Fin (1 / 2)) (q_prod q (Fin 0, fst g, fst (snd g), snd (snd g))))
          (smul4 beta step)"
proof -
  obtain gx gy gz where g: "g = (gx, gy, gz)" by (cases g)
  obtain s0 s1 s2 s3 where s: "step = (s0, s1, s2, s3)" by (cases step)
  obtain p0 p1 p2 p3 where p: "q_prod q (Fin 0, gx, gy, gz) = (p0, p1, p2, p3)"
    by (cases "q_prod q (Fin 0, gx, gy, gz)")
  show ?thesis by (simp add: g s p)
qed

lemma q_next_spec_eq:
  "q_next_spec beta samplePeriod g q step =
     idiv4 (add4 q (muls4 (qDot_spec beta g q step) samplePeriod))
           (linalg_norm4 (add4 q (muls4 (qDot_spec beta g q step) samplePeriod)))"
proof -
  obtain qw qx qy qz where q: "q = (qw, qx, qy, qz)" by (cases q)
  obtain d0 d1 d2 d3 where d: "qDot_spec beta g (qw, qx, qy, qz) step = (d0, d1, d2, d3)"
    by (cases "qDot_spec beta g (qw, qx, qy, qz) step")
  show ?thesis by (simp add: q d)
qed

lemma updateIMU_unfold:
  "linalg_norm3 a \<noteq> Fin 0 \<Longrightarrow>
   updateIMU self kwargs g a q =
     \<lparr>a_arr = normalize3 a,
      q_arr = q_next_spec (read_beta self kwargs) (read_samplePeriod self kwargs) g
                (normalize4 q)
                (normalize4 (JT_F3 (J_IMU (normalize4 q)) (F_IMU (normalize4 q) (normalize3 a))))\<rparr>"
  by (simp add: updateIMU_def Let_def normalize3_eq normalize4_eq q_next_spec_eq qDot_spec_eq)

lemma updateMARG_unfold:
  "linalg_norm3 a \<noteq> Fin 0 \<Longrightarrow> linalg_norm3 m \<noteq> Fin 0 \<Longrightarrow>
   updateMARG self kwargs g a m q =
     \<lparr>ma_arr = normalize3 a, mm_arr = normalize3 m,
      mq_arr = q_next_spec (read_beta self kwargs) (read_samplePeriod self kwargs) g
                (normalize4 q)
                (normalize4 (JT_F6 (J_MARG (normalize4 q) (b_MARG (h_MARG (normalize4 q) (normalize3 m))))
                   (F_MARG (normalize4 q) (b_MARG (h_MARG (normalize4 q) (normalize3 m)))
                      (normalize3 a) (normalize3 m))))\<rparr>"
  by (simp add: updateMARG_def Let_def normalize3_eq normalize4_eq q_next_spec_eq qDot_spec_eq)

lemma updateIMU_zero:
  "linalg_norm3 a = Fin 0 \<Longrightarrow> updateIMU self kwargs g a q = \<lparr>a_arr = a, q_arr = q\<rparr>"
  by (simp add: updateIMU_def Let_def)

lemma updateMARG_zero:
  "linalg_norm3 a = Fin 0 \<or> linalg_norm3 m = Fin 0 \<Longrightarrow>
   mq_arr (updateMARG self kwargs g a m q) = q"
  by (auto simp add: updateMARG_def Let_def)

text \<open>
  C6. When no early return is taken, both updates return
  \<open>normalize(q + qDot * samplePeriod)\<close>, where \<open>q\<close> is the normalized prior quaternion,
  \<open>step\<close> the normalized descent direction and
  \<open>qDot = 0.5 * product(q, [0, gx, gy, gz]) - beta * step\<close>.
\<close>

theorem rate_of_change_and_integration:
  "(linalg_norm3 a \<noteq> Fin 0 \<longrightarrow>
      q_arr (updateIMU self kwargs (gx, gy, gz) a q) =
        (let beta = read_beta self kwargs;
             samplePeriod = read_samplePeriod self kwargs
         in case normalize4 q of
              (qw, qx, qy, qz) \<Rightarrow>
         case normalize4 (JT_F3 (J_IMU (qw, qx, qy, qz))
                                (F_IMU (qw, qx, qy, qz) (normalize3 a))) of
              (s0, s1, s2, s3) \<Rightarrow>
         case q_prod (qw, qx, qy, qz) (Fin 0, gx, gy, gz) of
              (p0, p1, p2, p3) \<Rightarrow>
           normalize4 (qw + (Fin (1 / 2) * p0 - beta * s0) * samplePeriod,
                       qx + (Fin (1 / 2) * p1 - beta * s1) * samplePeriod,
                       qy + (Fin (1 / 2) * p2 - beta * s2) * samplePeriod,
                       qz + (Fin (1 / 2) * p3 - beta * s3) * samplePeriod))) \<and>
   (linalg_norm3 a \<noteq> Fin 0 \<and> linalg_norm3 m \<noteq> Fin 0 \<longrightarrow>
      mq_arr (updateMARG self kwargs (gx, gy, gz) a m q) =
        (let beta = read_beta self kwargs;
             samplePeriod = read_samplePeriod self kwargs
         in case normalize4 q of
              (qw, qx, qy, qz) \<Rightarrow>
         case normalize4 (JT_F6
                 (J_MARG (qw, qx, qy, qz) (b_MARG (h_MARG (qw, qx, qy, qz) (normalize3 m))))
                 (F_MARG (qw, qx, qy, qz) (b_MARG (h_MARG (qw, qx, qy, qz) (normalize3 m)))
                    (normalize3 a) (normalize3 m))) of
              (s0, s1, s2, s3) \<Rightarrow>
         case q_prod (qw, qx, qy, qz) (Fin 0, gx, gy, gz) of
              (p0, p1, p2, p3) \<Rightarrow>
           normalize4 (qw + (Fin (1 / 2) * p0 - beta * s0) * samplePeriod,
                       qx + (Fin (1 / 2) * p1 - beta * s1) * samplePeriod,
                       qy + (Fin (1 / 2) * p2 - beta * s2) * samplePeriod,
                       qz + (Fin (1 / 2) * p3 - beta * s3) * samplePeriod)))"
proof -
  obtain qw qx qy qz where q: "normalize4 q = (qw, qx, qy, qz)"
    by (cases "normalize4 q")
  obtain s0 s1 s2 s3 where s:
    "normalize4 (JT_F3 (J_IMU (qw, qx, qy, qz)) (F_IMU (qw, qx, qy, qz) (normalize3 a))) =
       (s0, s1, s2, s3)"
    by (cases "normalize4 (JT_F3 (J_IMU (qw, qx, qy, qz)) (F_IMU (qw, qx, qy, qz) (normalize3 a)))")
  obtain t0 t1 t2 t3 where t:
    "normalize4 (JT_F6
        (J_MARG (qw, qx, qy, qz) (b_MARG (h_MARG (qw, qx, qy, qz) (normalize3 m))))
        (F_MARG (qw, qx, qy, qz) (b_MARG (h_MARG (qw, qx, qy, qz) (normalize3 m)))
           (normalize3 a) (normalize3 m))) = (t0, t1, t2, t3)"
    by (cases "normalize4 (JT_F6
        (J_MARG (qw, qx, qy, qz) (b_MARG (h_MARG (qw, qx, qy, qz) (normalize3 m))))
        (F_MARG (qw, qx, qy, qz) (b_MARG (h_MARG (qw, qx, qy, qz) (normalize3 m)))
           (normalize3 a) (normalize3 m)))")
  obtain p0 p1 p2 p3 where p: "q_prod (qw, qx, qy, qz) (Fin 0, gx, gy, gz) = (p0, p1, p2, p3)"
    by (cases "q_prod (qw, qx, qy, qz) (Fin 0, gx, gy, gz)")
  have n: "q_next_spec beta samplePeriod (gx, gy, gz) (qw, qx, qy, qz) (u0, u1, u2, u3) =
      normalize4 (qw + (Fin (1 / 2) * p0 - beta * u0) * samplePeriod,
                  qx + (Fin (1 / 2) * p1 - beta * u1) * samplePeriod,
                  qy + (Fin (1 / 2) * p2 - beta * u2) * samplePeriod,
                  qz + (Fin (1 / 2) * p3 - beta * u3) * samplePeriod)"
    for beta samplePeriod u0 u1 u2 u3
    by (simp only: q_next_spec.simps qDot_spec.simps p prod.case)
  have imu: "q_arr (updateIMU self kwargs (gx, gy, gz) a q) =
      q_next_spec (read_beta self kwargs) (read_samplePeriod self kwargs) (gx, gy, gz)
        (qw, qx, qy, qz) (s0, s1, s2, s3)"
    if "linalg_norm3 a \<noteq> Fin 0"
    by (simp only: updateIMU_unfold [OF that] q s imu_arrays.select_convs)
  have marg: "mq_arr (updateMARG self kwargs (gx, gy, gz) a m q) =
      q_next_spec (read_beta self kwargs) (read_samplePeriod self kwargs) (gx, gy, gz)
        (qw, qx, qy, qz) (t0, t1, t2, t3)"
    if "linalg_norm3 a \<noteq> Fin 0" "linalg_norm3 m \<noteq> Fin 0"
    by (simp only: updateMARG_unfold [OF that] q t marg_arrays.select_convs)
  show ?thesis
    using imu marg by (simp only: Let_def q s t p prod.case n) simp
qed


section \<open>Values at concrete inputs\<close>

lemma ev_cfg:
  "read_beta Madgwick_dict [''beta'' \<mapsto> Fin 1, ''samplePeriod'' \<mapsto> Fin 1] = Fin 1"
  "read_samplePeriod Madgwick_dict [''beta'' \<mapsto> Fin 1, ''samplePeriod'' \<mapsto> Fin 1] = Fin 1"
  by (simp_all add: read_beta_def read_samplePeriod_def)

lemma ev_normalize:
  "normalize4 (Fin 2, Fin 0, Fin 0, Fin 0) = (Fin 1, Fin 0, Fin 0, Fin 0)"
  "normalize3 (Fin 2, Fin 0, Fin 0) = (Fin 1, Fin 0, Fin 0)"
  "normalize3 (Fin 0, Fin 0, Fin 2) = (Fin 0, Fin 0, Fin 1)"
  "normalize3 (Fin 0, Fin 2, Fin 0) = (Fin 0, Fin 1, Fin 0)"
  by simp_all

lemma ev_norm:
  "linalg_norm3 (Fin 2, Fin 0, Fin 0) \<noteq> Fin 0"
  "linalg_norm3 (Fin 0, Fin 0, Fin 2) \<noteq> Fin 0"
  "linalg_norm3 (Fin 0, Fin 2, Fin 0) \<noteq> Fin 0"
  by simp_all

lemma ev_step_IMU:
  "normalize4 (JT_F3 (J_IMU (Fin 1, Fin 0, Fin 0, Fin 0))
                 (F_IMU (Fin 1, Fin 0, Fin 0, Fin 0) (Fin 1, Fin 0, Fin 0))) =
     (Fin 0, Fin 0, Fin 1, Fin 0)"
  by simp

lemma ev_step_MARG:
  "normalize4 (JT_F6
      (J_MARG (Fin 1, Fin 0, Fin 0, Fin 0)
         (b_MARG (h_MARG (Fin 1, Fin 0, Fin 0, Fin 0) (Fin 0, Fin 1, Fin 0))))
      (F_MARG (Fin 1, Fin 0, Fin 0, Fin 0)
         (b_MARG (h_MARG (Fin 1, Fin 0, Fin 0, Fin 0) (Fin 0, Fin 1, Fin 0)))
         (Fin 0, Fin 0, Fin 1) (Fin 0, Fin 1, Fin 0))) = (Fin 0, Fin 0, Fin 0, Fin 1)"
  by simp

lemma ev_q_prod:
  "q_prod (Fin 1, Fin 0, Fin 0, Fin 0) (Fin 0, Fin 2, Fin 4, Fin 2) =
     (Fin 0, Fin 2, Fin 4, Fin 2)"
  "q_prod (Fin 1, Fin 0, Fin 0, Fin 0) (Fin 0, Fin 2, Fin 2, Fin 4) =
     (Fin 0, Fin 2, Fin 2, Fin 4)"
  by simp_all

lemma ev_integrate:
  "normalize4
     (Fin 1 + (Fin (1 / 2) * Fin 0 - Fin 1 * Fin 0) * Fin 1,
      Fin 0 + (Fin (1 / 2) * Fin 2 - Fin 1 * Fin 0) * Fin 1,
      Fin 0 + (Fin (1 / 2) * Fin 4 - Fin 1 * Fin 1) * Fin 1,
      Fin 0 + (Fin (1 / 2) * Fin 2 - Fin 1 * Fin 0) * Fin 1) =
     (Fin (1 / 2), Fin (1 / 2), Fin (1 / 2), Fin (1 / 2))"
  "normalize4
     (Fin 1 + (Fin (1 / 2) * Fin 0 - Fin 1 * Fin 0) * Fin 1,
      Fin 0 + (Fin (1 / 2) * Fin 2 - Fin 1 * Fin 0) * Fin 1,
      Fin 0 + (Fin (1 / 2) * Fin 2 - Fin 1 * Fin 0) * Fin 1,
      Fin 0 + (Fin (1 / 2) * Fin 4 - Fin 1 * Fin 1) * Fin 1) =
     (Fin (1 / 2), Fin (1 / 2), Fin (1 / 2), Fin (1 / 2))"
  by simp_all

lemma ev_q_next:
  "q_next_spec (Fin 1) (Fin 1) (Fin 2, Fin 4, Fin 2) (Fin 1, Fin 0, Fin 0, Fin 0)
     (Fin 0, Fin 0, Fin 1, Fin 0) = (Fin (1 / 2), Fin (1 / 2), Fin (1 / 2), Fin (1 / 2))"
  "q_next_spec (Fin 1) (Fin 1) (Fin 2, Fin 2, Fin 4) (Fin 1, Fin 0, Fin 0, Fin 0)
     (Fin 0, Fin 0, Fin 0, Fin 1) = (Fin (1 / 2), Fin (1 / 2), Fin (1 / 2), Fin (1 / 2))"
  by (simp_all only: q_next_spec.simps qDot_spec.simps ev_q_prod prod.case ev_integrate)

lemma rnd_overflow: "2 ^ 1024 - 2 ^ 970 \<le> r \<Longrightarrow> rnd r = PInf"
proof -
  assume h: "2 ^ 1024 - 2 ^ 970 \<le> r"
  have "(0::real) < 2 ^ 1024 - 2 ^ 970" by simp
  with h have "0 < r" by linarith
  with h show ?thesis by (simp add: rnd_def)
qed

lemma rnd_underflow: "\<bar>r\<bar> \<le> 1 / 2 ^ 1075 \<Longrightarrow> rnd r = Fin 0"
proof -
  assume h: "\<bar>r\<bar> \<le> 1 / 2 ^ 1075"
  have "(1::real) / 2 ^ 1075 < 2 ^ 1024 - 2 ^ 970" by simp
  with h have "\<not> 2 ^ 1024 - 2 ^ 970 \<le> \<bar>r\<bar>" by linarith
  with h show ?thesis by (simp add: rnd_def)
qed

lemma ev_big: "Fin (2 ^ 600) * Fin (2 ^ 600) = PInf"
proof -
  have "(2::real) ^ 1024 - 2 ^ 970 \<le> 2 ^ 1024" by simp
  also have "(2::real) ^ 1024 \<le> 2 ^ 1200" by (rule power_increasing) simp_all
  finally have "(2::real) ^ 1024 - 2 ^ 970 \<le> 2 ^ 600 * 2 ^ 600"
    by (simp add: power_add [symmetric])
  then show ?thesis by (simp only: times_f64.simps rnd_overflow)
qed

lemma ev_small: "Fin (1 / 2 ^ 600) * Fin (1 / 2 ^ 600) = Fin 0"
proof -
  have "(2::real) ^ 1075 \<le> 2 ^ 1200" by (rule power_increasing) simp_all
  then have "(1::real) / 2 ^ 1200 \<le> 1 / 2 ^ 1075"
    by (simp add: frac_le)
  then have "\<bar>1 / 2 ^ 600 * (1 / 2 ^ 600) :: real\<bar> \<le> 1 / 2 ^ 1075"
    by (simp add: power_add [symmetric])
  then show ?thesis by (simp only: times_f64.simps rnd_underflow)
qed

theorem rate_of_change_and_integration_witness:
  "linalg_norm3 (Fin 2, Fin 0, Fin 0) \<noteq> Fin 0 \<and>
   q_arr (updateIMU Madgwick_dict [''beta'' \<mapsto> Fin 1, ''samplePeriod'' \<mapsto> Fin 1]
            (Fin 2, Fin 4, Fin 2) (Fin 2, Fin 0, Fin 0) (Fin 2, Fin 0, Fin 0, Fin 0)) =
     (Fin (1 / 2), Fin (1 / 2), Fin (1 / 2), Fin (1 / 2)) \<and>
   linalg_norm3 (Fin 0, Fin 0, Fin 2) \<noteq> Fin 0 \<and> linalg_norm3 (Fin 0, Fin 2, Fin 0) \<noteq> Fin 0 \<and>
   mq_arr (updateMARG Madgwick_dict [''beta'' \<mapsto> Fin 1, ''samplePeriod'' \<mapsto> Fin 1]
            (Fin 2, Fin 2, Fin 4) (Fin 0, Fin 0, Fin 2) (Fin 0, Fin 2, Fin 0)
            (Fin 2, Fin 0, Fin 0, Fin 0)) =
     (Fin (1 / 2), Fin (1 / 2), Fin (1 / 2), Fin (1 / 2))"
proof -
  have h2: "linalg_norm3 (Fin 0, Fin 0, Fin 2) \<noteq> Fin 0 \<and> linalg_norm3 (Fin 0, Fin 2, Fin 0) \<noteq> Fin 0"
    using ev_norm by simp
  have c1: "q_arr (updateIMU Madgwick_dict [''beta'' \<mapsto> Fin 1, ''samplePeriod'' \<mapsto> Fin 1]
            (Fin 2, Fin 4, Fin 2) (Fin 2, Fin 0, Fin 0) (Fin 2, Fin 0, Fin 0, Fin 0)) =
     (Fin (1 / 2), Fin (1 / 2), Fin (1 / 2), Fin (1 / 2))"
    by (rule trans [OF rate_of_change_and_integration [of "(Fin 2, Fin 0, Fin 0)" Madgwick_dict
          "[''beta'' \<mapsto> Fin 1, ''samplePeriod'' \<mapsto> Fin 1]" "Fin 2" "Fin 4" "Fin 2"
          "(Fin 2, Fin 0, Fin 0, Fin 0)" "(Fin 0, Fin 2, Fin 0)",
          THEN conjunct1, THEN mp, OF ev_norm(1)]])
      (simp only: Let_def ev_cfg ev_normalize ev_step_IMU ev_q_prod ev_integrate prod.case)
  have c2: "mq_arr (updateMARG Madgwick_dict [''beta'' \<mapsto> Fin 1, ''samplePeriod'' \<mapsto> Fin 1]
            (Fin 2, Fin 2, Fin 4) (Fin 0, Fin 0, Fin 2) (Fin 0, Fin 2, Fin 0)
            (Fin 2, Fin 0, Fin 0, Fin 0)) =
     (Fin (1 / 2), Fin (1 / 2), Fin (1 / 2), Fin (1 / 2))"
    by (rule trans [OF rate_of_change_and_integration [of "(Fin 0, Fin 0, Fin 2)" Madgwick_dict
          "[''beta'' \<mapsto> Fin 1, ''samplePeriod'' \<mapsto> Fin 1]" "Fin 2" "Fin 2" "Fin 4"
          "(Fin 2, Fin 0, Fin 0, Fin 0)" "(Fin 0, Fin 2, Fin 0)",
          THEN conjunct2, THEN mp, OF h2]])
      (simp only: Let_def ev_cfg ev_normalize ev_step_MARG ev_q_prod ev_integrate prod.case)
  show ?thesis
    using ev_norm h2 c1 c2 by blast
qed


section \<open>The error vector and the Jacobian of updateIMU\<close>

lemma F_IMU_explicit:
  "F_IMU (qw, qx, qy, qz) (ax, ay, az) =
     (Fin 2 * (qx * qz - qw * qy) - ax,
      Fin 2 * (qw * qx + qy * qz) - ay,
      Fin 2 * (Fin (1 / 2) - qx * qx - qy * qy) - az)"
  by (simp add: pow2_def)

lemma J_IMU_rnd:
  "J_IMU (Fin qw, Fin qx, Fin qy, Fin qz) =
     ((rnd (- 2 * qy), rnd (2 * qz), rnd (- 2 * qw), rnd (2 * qx)),
      (rnd (2 * qx), rnd (2 * qw), rnd (2 * qz), rnd (2 * qy)),
      (rnd 0, rnd (- 4 * qx), rnd (- 4 * qy), rnd 0))"
  by simp

text \<open>
  C5. In \<open>updateIMU\<close>, with the normalized accelerometer sample \<open>(ax, ay, az)\<close> and the
  normalized quaternion \<open>(qw, qx, qy, qz)\<close>, the returned quaternion is computed from the
  descent direction \<open>J.T @ F\<close> in which \<open>F\<close> is
  \<open>[2(qx qz - qw qy) - ax, 2(qw qx + qy qz) - ay, 2(0.5 - qx\<^sup>2 - qy\<^sup>2) - az]\<close> and every
  entry of \<open>J\<close> is the binary64 value of the partial derivative of the row's component of
  the gravity prediction with respect to the column's component of the quaternion.
\<close>

theorem error_vector_and_jacobian:
  "(linalg_norm3 a \<noteq> Fin 0 \<and> normalize4 q = (Fin qw, Fin qx, Fin qy, Fin qz) \<and>
    normalize3 a = (ax, ay, az) \<longrightarrow>
      q_arr (updateIMU self kwargs g a q) =
        q_next_spec (read_beta self kwargs) (read_samplePeriod self kwargs) g
          (Fin qw, Fin qx, Fin qy, Fin qz)
          (normalize4 (JT_F3
             ((rnd (- 2 * qy), rnd (2 * qz), rnd (- 2 * qw), rnd (2 * qx)),
              (rnd (2 * qx), rnd (2 * qw), rnd (2 * qz), rnd (2 * qy)),
              (rnd 0, rnd (- 4 * qx), rnd (- 4 * qy), rnd 0))
             (Fin 2 * (Fin qx * Fin qz - Fin qw * Fin qy) - ax,
              Fin 2 * (Fin qw * Fin qx + Fin qy * Fin qz) - ay,
              Fin 2 * (Fin (1 / 2) - Fin qx * Fin qx - Fin qy * Fin qy) - az)))) \<and>
   gravity_pred qw qx qy qz =
     (2 * (qx * qz - qw * qy), 2 * (qw * qx + qy * qz), 2 * (1 / 2 - qx\<^sup>2 - qy\<^sup>2)) \<and>
   ((\<lambda>t. fst (gravity_pred t qx qy qz)) has_real_derivative - 2 * qy) (at qw) \<and>
   ((\<lambda>t. fst (gravity_pred qw t qy qz)) has_real_derivative 2 * qz) (at qx) \<and>
   ((\<lambda>t. fst (gravity_pred qw qx t qz)) has_real_derivative - 2 * qw) (at qy) \<and>
   ((\<lambda>t. fst (gravity_pred qw qx qy t)) has_real_derivative 2 * qx) (at qz) \<and>
   ((\<lambda>t. fst (snd (gravity_pred t qx qy qz))) has_real_derivative 2 * qx) (at qw) \<and>
   ((\<lambda>t. fst (snd (gravity_pred qw t qy qz))) has_real_derivative 2 * qw) (at qx) \<and>
   ((\<lambda>t. fst (snd (gravity_pred qw qx t qz))) has_real_derivative 2 * qz) (at qy) \<and>
   ((\<lambda>t. fst (snd (gravity_pred qw qx qy t))) has_real_derivative 2 * qy) (at qz) \<and>
   ((\<lambda>t. snd (snd (gravity_pred t qx qy qz))) has_real_derivative 0) (at qw) \<and>
   ((\<lambda>t. snd (snd (gravity_pred qw t qy qz))) has_real_derivative - 4 * qx) (at qx) \<and>
   ((\<lambda>t. snd (snd (gravity_pred qw qx t qz))) has_real_derivative - 4 * qy) (at qy) \<and>
   ((\<lambda>t. snd (snd (gravity_pred qw qx qy t))) has_real_derivative 0) (at qz)"
proof -
  have d00: "((\<lambda>t. fst (gravity_pred t qx qy qz)) has_real_derivative (- 2 * qy)) (at qw)"
    unfolding gravity_pred_def fst_conv by (auto intro!: derivative_eq_intros)
  have d01: "((\<lambda>t. fst (gravity_pred qw t qy qz)) has_real_derivative (2 * qz)) (at qx)"
    unfolding gravity_pred_def fst_conv by (auto intro!: derivative_eq_intros)
  have d02: "((\<lambda>t. fst (gravity_pred qw qx t qz)) has_real_derivative (- 2 * qw)) (at qy)"
    unfolding gravity_pred_def fst_conv by (auto intro!: derivative_eq_intros)
  have d03: "((\<lambda>t. fst (gravity_pred qw qx qy t)) has_real_derivative (2 * qx)) (at qz)"
    unfolding gravity_pred_def fst_conv by (auto intro!: derivative_eq_intros)
  have d10: "((\<lambda>t. fst (snd (gravity_pred t qx qy qz))) has_real_derivative (2 * qx)) (at qw)"
    unfolding gravity_pred_def fst_conv snd_conv by (auto intro!: derivative_eq_intros)
  have d11: "((\<lambda>t. fst (snd (gravity_pred qw t qy qz))) has_real_derivative (2 * qw)) (at qx)"
    unfolding gravity_pred_def fst_conv snd_conv by (auto intro!: derivative_eq_intros)
  have d12: "((\<lambda>t. fst (snd (gravity_pred qw qx t qz))) has_real_derivative (2 * qz)) (at qy)"
    unfolding gravity_pred_def fst_conv snd_conv by (auto intro!: derivative_eq_intros)
  have d13: "((\<lambda>t. fst (snd (gravity_pred qw qx qy t))) has_real_derivative (2 * qy)) (at qz)"
    unfolding gravity_pred_def fst_conv snd_conv by (auto intro!: derivative_eq_intros)
  have d20: "((\<lambda>t. snd (snd (gravity_pred t qx qy qz))) has_real_derivative 0) (at qw)"
    unfolding gravity_pred_def fst_conv snd_conv by (auto intro!: derivative_eq_intros)
  have d21: "((\<lambda>t. snd (snd (gravity_pred qw t qy qz))) has_real_derivative (- 4 * qx)) (at qx)"
    unfolding gravity_pred_def fst_conv snd_conv by (auto intro!: derivative_eq_intros)
  have d22: "((\<lambda>t. snd (snd (gravity_pred qw qx t qz))) has_real_derivative (- 4 * qy)) (at qy)"
    unfolding gravity_pred_def fst_conv snd_conv by (auto intro!: derivative_eq_intros)
  have d23: "((\<lambda>t. snd (snd (gravity_pred qw qx qy t))) has_real_derivative 0) (at qz)"
    unfolding gravity_pred_def fst_conv snd_conv by (auto intro!: derivative_eq_intros)
  have u: "q_arr (updateIMU self kwargs g a q) =
        q_next_spec (read_beta self kwargs) (read_samplePeriod self kwargs) g
          (Fin qw, Fin qx, Fin qy, Fin qz)
          (normalize4 (JT_F3
             ((rnd (- 2 * qy), rnd (2 * qz), rnd (- 2 * qw), rnd (2 * qx)),
              (rnd (2 * qx), rnd (2 * qw), rnd (2 * qz), rnd (2 * qy)),
              (rnd 0, rnd (- 4 * qx), rnd (- 4 * qy), rnd 0))
             (Fin 2 * (Fin qx * Fin qz - Fin qw * Fin qy) - ax,
              Fin 2 * (Fin qw * Fin qx + Fin qy * Fin qz) - ay,
              Fin 2 * (Fin (1 / 2) - Fin qx * Fin qx - Fin qy * Fin qy) - az)))"
    if na: "linalg_norm3 a \<noteq> Fin 0"
      and q: "normalize4 q = (Fin qw, Fin qx, Fin qy, Fin qz)"
      and a: "normalize3 a = (ax, ay, az)"
    by (simp only: updateIMU_unfold [OF na] q a imu_arrays.select_convs
        F_IMU_explicit J_IMU_rnd)
  have g: "gravity_pred qw qx qy qz =
     (2 * (qx * qz - qw * qy), 2 * (qw * qx + qy * qz), 2 * (1 / 2 - qx\<^sup>2 - qy\<^sup>2))"
    by (simp only: gravity_pred_def)
  show ?thesis
    using u g d00 d01 d02 d03 d10 d11 d12 d13 d20 d21 d22 d23 by blast
qed

theorem error_vector_and_jacobian_witness:
  "linalg_norm3 (Fin 2, Fin 0, Fin 0) \<noteq> Fin 0 \<and>
   normalize4 (Fin 2, Fin 0, Fin 0, Fin 0) = (Fin 1, Fin 0, Fin 0, Fin 0) \<and>
   normalize3 (Fin 2, Fin 0, Fin 0) = (Fin 1, Fin 0, Fin 0) \<and>
   JT_F3
     ((rnd (- 2 * 0), rnd (2 * 0), rnd (- 2 * 1), rnd (2 * 0)),
      (rnd (2 * 0), rnd (2 * 1), rnd (2 * 0), rnd (2 * 0)),
      (rnd 0, rnd (- 4 * 0), rnd (- 4 * 0), rnd 0))
     (Fin 2 * (Fin 0 * Fin 0 - Fin 1 * Fin 0) - Fin 1,
      Fin 2 * (Fin 1 * Fin 0 + Fin 0 * Fin 0) - Fin 0,
      Fin 2 * (Fin (1 / 2) - Fin 0 * Fin 0 - Fin 0 * Fin 0) - Fin 0) =
     (Fin 0, Fin 0, Fin 2, Fin 0) \<and>
   q_arr (updateIMU Madgwick_dict [''beta'' \<mapsto> Fin 1, ''samplePeriod'' \<mapsto> Fin 1]
            (Fin 2, Fin 4, Fin 2) (Fin 2, Fin 0, Fin 0) (Fin 2, Fin 0, Fin 0, Fin 0)) =
     (Fin (1 / 2), Fin (1 / 2), Fin (1 / 2), Fin (1 / 2))"
proof -
  have h: "linalg_norm3 (Fin 2, Fin 0, Fin 0) \<noteq> Fin 0 \<and>
      normalize4 (Fin 2, Fin 0, Fin 0, Fin 0) = (Fin 1, Fin 0, Fin 0, Fin 0) \<and>
      normalize3 (Fin 2, Fin 0, Fin 0) = (Fin 1, Fin 0, Fin 0)"
    using ev_norm ev_normalize by simp
  have s: "JT_F3
     ((rnd (- 2 * 0), rnd (2 * 0), rnd (- 2 * 1), rnd (2 * 0)),
      (rnd (2 * 0), rnd (2 * 1), rnd (2 * 0), rnd (2 * 0)),
      (rnd 0, rnd (- 4 * 0), rnd (- 4 * 0), rnd 0))
     (Fin 2 * (Fin 0 * Fin 0 - Fin 1 * Fin 0) - Fin 1,
      Fin 2 * (Fin 1 * Fin 0 + Fin 0 * Fin 0) - Fin 0,
      Fin 2 * (Fin (1 / 2) - Fin 0 * Fin 0 - Fin 0 * Fin 0) - Fin 0) =
     (Fin 0, Fin 0, Fin 2, Fin 0)"
    by simp
  have n: "normalize4 (Fin 0, Fin 0, Fin 2, Fin 0) = (Fin 0, Fin 0, Fin 1, Fin 0)"
    by simp
  have c: "q_arr (updateIMU Madgwick_dict [''beta'' \<mapsto> Fin 1, ''samplePeriod'' \<mapsto> Fin 1]
            (Fin 2, Fin 4, Fin 2) (Fin 2, Fin 0, Fin 0) (Fin 2, Fin 0, Fin 0, Fin 0)) =
     (Fin (1 / 2), Fin (1 / 2), Fin (1 / 2), Fin (1 / 2))"
    by (rule trans [OF error_vector_and_jacobian [of "(Fin 2, Fin 0, Fin 0)"
          "(Fin 2, Fin 0, Fin 0, Fin 0)" 1 0 0 0 "Fin 1" "Fin 0" "Fin 0" Madgwick_dict
          "[''beta'' \<mapsto> Fin 1, ''samplePeriod'' \<mapsto> Fin 1]" "(Fin 2, Fin 4, Fin 2)",
          THEN conjunct1, THEN mp, OF h]])
      (simp only: s n ev_cfg ev_q_next)
  show ?thesis
    using h s c by blast
qed


section \<open>The reference field of updateMARG\<close>

text \<open>
  C4, as the claim states it, fails: the second entry of \<open>b\<close> is not the norm of the pair
  \<open>(hy, hz)\<close>. With the identity quaternion and the magnetometer sample \<open>[1, 0, 0]\<close> the
  rotated field is \<open>h = (0, 1, 0, 0)\<close>, so \<open>(hy, hz) = (0, 0)\<close> has norm 0, and the code
  computes \<open>b = (0, 1, 0, 0)\<close>.
\<close>

theorem reference_field_counterexample:
  "normalize3 (Fin 1, Fin 0, Fin 0) = (Fin 1, Fin 0, Fin 0) \<and>
   normalize4 (Fin 1, Fin 0, Fin 0, Fin 0) = (Fin 1, Fin 0, Fin 0, Fin 0) \<and>
   h_MARG (Fin 1, Fin 0, Fin 0, Fin 0) (Fin 1, Fin 0, Fin 0) = (Fin 0, Fin 1, Fin 0, Fin 0) \<and>
   b_MARG (Fin 0, Fin 1, Fin 0, Fin 0) = (Fin 0, Fin 1, Fin 0, Fin 0) \<and>
   linalg_norm2 (Fin 0, Fin 0) = Fin 0 \<and>
   b_MARG (h_MARG (Fin 1, Fin 0, Fin 0, Fin 0) (Fin 1, Fin 0, Fin 0)) \<noteq>
     (Fin 0, linalg_norm2 (Fin 0, Fin 0), Fin 0, Fin 0)"
  by simp

text \<open>
  C4, amended. After \<open>m\<close> and \<open>q\<close> are normalized, the rotated field is
  \<open>h = product(q, product([0, mx, my, mz], conjugate(q)))\<close> and the magnetic rows of \<open>F\<close>
  and \<open>J\<close> use \<open>b = [0, norm (hx, hy), 0, hz]\<close>, where \<open>(hw, hx, hy, hz)\<close> are the four
  components of \<open>h\<close>: the second entry of \<open>b\<close> is the norm of the pair \<open>(hx, hy)\<close>, the
  fourth is \<open>hz\<close>.
\<close>

theorem reference_field_of_updateMARG:
  "linalg_norm3 a \<noteq> Fin 0 \<Longrightarrow> linalg_norm3 m \<noteq> Fin 0 \<Longrightarrow>
   qn = normalize4 q \<Longrightarrow> normalize3 m = (mx, my, mz) \<Longrightarrow>
   q_prod qn (q_prod (Fin 0, mx, my, mz) (q_conj qn)) = (hw, hx, hy, hz) \<Longrightarrow>
   b = (Fin 0, linalg_norm2 (hx, hy), Fin 0, hz) \<Longrightarrow>
   mq_arr (updateMARG self kwargs g a m q) =
     q_next_spec (read_beta self kwargs) (read_samplePeriod self kwargs) g qn
       (normalize4 (JT_F6 (J_MARG qn b) (F_MARG qn b (normalize3 a) (mx, my, mz))))"
proof -
  assume na: "linalg_norm3 a \<noteq> Fin 0" and nm: "linalg_norm3 m \<noteq> Fin 0"
    and qn: "qn = normalize4 q" and m: "normalize3 m = (mx, my, mz)"
    and h: "q_prod qn (q_prod (Fin 0, mx, my, mz) (q_conj qn)) = (hw, hx, hy, hz)"
    and b: "b = (Fin 0, linalg_norm2 (hx, hy), Fin 0, hz)"
  have "b_MARG (h_MARG (normalize4 q) (normalize3 m)) = b"
    by (simp only: m h_MARG.simps qn [symmetric] h b_MARG.simps b)
  then show ?thesis
    by (simp only: updateMARG_unfold [OF na nm] marg_arrays.select_convs m qn)
qed

theorem reference_field_of_updateMARG_witness:
  "linalg_norm3 (Fin 0, Fin 0, Fin 1) \<noteq> Fin 0 \<and> linalg_norm3 (Fin 3, Fin 4, Fin 0) \<noteq> Fin 0 \<and>
   (Fin 1, Fin 0, Fin 0, Fin 0) = normalize4 (Fin 1, Fin 0, Fin 0, Fin 0) \<and>
   normalize3 (Fin 3, Fin 4, Fin 0) = (Fin (3 / 5), Fin (4 / 5), Fin 0) \<and>
   q_prod (Fin 1, Fin 0, Fin 0, Fin 0)
     (q_prod (Fin 0, Fin (3 / 5), Fin (4 / 5), Fin 0) (q_conj (Fin 1, Fin 0, Fin 0, Fin 0))) =
     (Fin 0, Fin (3 / 5), Fin (4 / 5), Fin 0) \<and>
   (Fin 0, Fin 1, Fin 0, Fin 0) = (Fin 0, linalg_norm2 (Fin (3 / 5), Fin (4 / 5)), Fin 0, Fin 0) \<and>
   mq_arr (updateMARG Madgwick_dict Map.empty (Fin 0, Fin 0, Fin 0) (Fin 0, Fin 0, Fin 1)
             (Fin 3, Fin 4, Fin 0) (Fin 1, Fin 0, Fin 0, Fin 0)) =
     q_next_spec (read_beta Madgwick_dict Map.empty) (read_samplePeriod Madgwick_dict Map.empty)
       (Fin 0, Fin 0, Fin 0) (Fin 1, Fin 0, Fin 0, Fin 0)
       (normalize4 (JT_F6 (J_MARG (Fin 1, Fin 0, Fin 0, Fin 0) (Fin 0, Fin 1, Fin 0, Fin 0))
          (F_MARG (Fin 1, Fin 0, Fin 0, Fin 0) (Fin 0, Fin 1, Fin 0, Fin 0)
             (normalize3 (Fin 0, Fin 0, Fin 1)) (Fin (3 / 5), Fin (4 / 5), Fin 0))))"
proof -
  have s25: "sqrt 25 = 5"
    by (rule real_sqrt_unique) simp_all
  have h1: "linalg_norm3 (Fin 0, Fin 0, Fin 1) \<noteq> Fin 0"
    by simp
  have h2: "linalg_norm3 (Fin 3, Fin 4, Fin 0) \<noteq> Fin 0"
    by (simp add: s25)
  have h3: "(Fin 1, Fin 0, Fin 0, Fin 0) = normalize4 (Fin 1, Fin 0, Fin 0, Fin 0)"
    by simp
  have h4: "normalize3 (Fin 3, Fin 4, Fin 0) = (Fin (3 / 5), Fin (4 / 5), Fin 0)"
    by (simp add: s25)
  have h5: "q_prod (Fin 1, Fin 0, Fin 0, Fin 0)
     (q_prod (Fin 0, Fin (3 / 5), Fin (4 / 5), Fin 0) (q_conj (Fin 1, Fin 0, Fin 0, Fin 0))) =
     (Fin 0, Fin (3 / 5), Fin (4 / 5), Fin 0)"
    by simp
  have h6: "(Fin 0, Fin 1, Fin 0, Fin 0) =
      (Fin 0, linalg_norm2 (Fin (3 / 5), Fin (4 / 5)), Fin 0, Fin 0)"
    by simp
  show ?thesis
    using h1 h2 h3 h4 h5 h6 reference_field_of_updateMARG [OF h1 h2 h3 h4 h5 h6]
    by blast
qed


section \<open>The arrays of the caller\<close>

text \<open>
  C9, as the claim states it, fails: the accelerometer array need not hold a unit vector
  after the call. A sample with an infinite component passes the zero-norm check and is left
  as \<open>(NaN, 0, 0)\<close>; the finite sample \<open>(2^600, 0, 0)\<close>, whose square overflows, has the
  computed norm \<open>+\<infinity>\<close> and is left as \<open>(0, 0, 0)\<close>.
\<close>

theorem unit_vector_counterexample:
  "linalg_norm3 (PInf, Fin 0, Fin 1) \<noteq> Fin 0 \<and>
   a_arr (updateIMU Madgwick_dict Map.empty (Fin 0, Fin 0, Fin 0) (PInf, Fin 0, Fin 1)
            (Fin 1, Fin 0, Fin 0, Fin 0)) = (NaN, Fin 0, Fin 0) \<and>
   linalg_norm3 (NaN, Fin 0, Fin 0) \<noteq> Fin 1 \<and>
   fin3 (Fin (2 ^ 600), Fin 0, Fin 0) \<and>
   linalg_norm3 (Fin (2 ^ 600), Fin 0, Fin 0) = PInf \<and>
   a_arr (updateIMU Madgwick_dict Map.empty (Fin 0, Fin 0, Fin 0) (Fin (2 ^ 600), Fin 0, Fin 0)
            (Fin 1, Fin 0, Fin 0, Fin 0)) = (Fin 0, Fin 0, Fin 0) \<and>
   linalg_norm3 (Fin 0, Fin 0, Fin 0) \<noteq> Fin 1"
proof -
  have n1: "linalg_norm3 (PInf, Fin 0, Fin 1) = PInf"
    by simp
  have n2: "linalg_norm3 (Fin (2 ^ 600), Fin 0, Fin 0) = PInf"
    by (simp only: linalg_norm3.simps ev_big) simp
  have a1: "a_arr (updateIMU Madgwick_dict Map.empty (Fin 0, Fin 0, Fin 0) (PInf, Fin 0, Fin 1)
            (Fin 1, Fin 0, Fin 0, Fin 0)) = (NaN, Fin 0, Fin 0)"
    by (simp add: updateIMU_def Let_def n1 del: linalg_norm3.simps)
  have h2: "linalg_norm3 (Fin (2 ^ 600), Fin 0, Fin 0) \<noteq> Fin 0"
    by (simp only: n2) simp
  have a2: "a_arr (updateIMU Madgwick_dict Map.empty (Fin 0, Fin 0, Fin 0)
            (Fin (2 ^ 600), Fin 0, Fin 0) (Fin 1, Fin 0, Fin 0, Fin 0)) = (Fin 0, Fin 0, Fin 0)"
    by (simp only: updateIMU_unfold [OF h2] imu_arrays.select_convs normalize3_eq idiv3.simps
        n2 divide_f64.simps)
  have f: "fin3 (Fin (2 ^ 600), Fin 0, Fin 0)"
    by (simp only: fin3.simps is_fin.simps simp_thms)
  have u: "linalg_norm3 (NaN, Fin 0, Fin 0) \<noteq> Fin 1" "linalg_norm3 (Fin 0, Fin 0, Fin 0) \<noteq> Fin 1"
    by simp_all
  have z: "linalg_norm3 (PInf, Fin 0, Fin 1) \<noteq> Fin 0"
    by (simp only: n1) simp
  show ?thesis
    using z a1 u f n2 a2 by blast
qed

text \<open>
  C9, amended. When the zero-norm checks pass, the arrays of the caller are changed in
  place: after the call the accelerometer array (and, for \<open>updateMARG\<close>, the magnetometer
  array) holds the sample with every component divided by the computed norm of the sample,
  and the quaternion array holds the returned quaternion, the renormalized result of
  integrating the normalized prior quaternion.
\<close>

theorem arrays_changed_in_place:
  "(linalg_norm3 a \<noteq> Fin 0 \<longrightarrow>
      updateIMU self kwargs g a q =
        \<lparr>a_arr = normalize3 a,
         q_arr = q_next_spec (read_beta self kwargs) (read_samplePeriod self kwargs) g
                   (normalize4 q)
                   (normalize4 (JT_F3 (J_IMU (normalize4 q))
                      (F_IMU (normalize4 q) (normalize3 a))))\<rparr>) \<and>
   (linalg_norm3 a \<noteq> Fin 0 \<and> linalg_norm3 m \<noteq> Fin 0 \<longrightarrow>
      updateMARG self kwargs g a m q =
        \<lparr>ma_arr = normalize3 a, mm_arr = normalize3 m,
         mq_arr = q_next_spec (read_beta self kwargs) (read_samplePeriod self kwargs) g
                   (normalize4 q)
                   (normalize4 (JT_F6
                      (J_MARG (normalize4 q) (b_MARG (h_MARG (normalize4 q) (normalize3 m))))
                      (F_MARG (normalize4 q) (b_MARG (h_MARG (normalize4 q) (normalize3 m)))
                         (normalize3 a) (normalize3 m))))\<rparr>)"
  using updateIMU_unfold [of a self kwargs g q] updateMARG_unfold [of a m self kwargs g q]
  by blast

theorem arrays_changed_in_place_witness:
  "linalg_norm3 (Fin 2, Fin 0, Fin 0) \<noteq> Fin 0 \<and>
   updateIMU Madgwick_dict [''beta'' \<mapsto> Fin 1, ''samplePeriod'' \<mapsto> Fin 1]
     (Fin 2, Fin 4, Fin 2) (Fin 2, Fin 0, Fin 0) (Fin 2, Fin 0, Fin 0, Fin 0) =
     \<lparr>a_arr = (Fin 1, Fin 0, Fin 0),
      q_arr = (Fin (1 / 2), Fin (1 / 2), Fin (1 / 2), Fin (1 / 2))\<rparr> \<and>
   linalg_norm3 (Fin 0, Fin 0, Fin 2) \<noteq> Fin 0 \<and> linalg_norm3 (Fin 0, Fin 2, Fin 0) \<noteq> Fin 0 \<and>
   updateMARG Madgwick_dict [''beta'' \<mapsto> Fin 1, ''samplePeriod'' \<mapsto> Fin 1]
     (Fin 2, Fin 2, Fin 4) (Fin 0, Fin 0, Fin 2) (Fin 0, Fin 2, Fin 0)
     (Fin 2, Fin 0, Fin 0, Fin 0) =
     \<lparr>ma_arr = (Fin 0, Fin 0, Fin 1), mm_arr = (Fin 0, Fin 1, Fin 0),
      mq_arr = (Fin (1 / 2), Fin (1 / 2), Fin (1 / 2), Fin (1 / 2))\<rparr>"
proof -
  have h2: "linalg_norm3 (Fin 0, Fin 0, Fin 2) \<noteq> Fin 0 \<and> linalg_norm3 (Fin 0, Fin 2, Fin 0) \<noteq> Fin 0"
    using ev_norm by simp
  have c1: "updateIMU Madgwick_dict [''beta'' \<mapsto> Fin 1, ''samplePeriod'' \<mapsto> Fin 1]
     (Fin 2, Fin 4, Fin 2) (Fin 2, Fin 0, Fin 0) (Fin 2, Fin 0, Fin 0, Fin 0) =
     \<lparr>a_arr = (Fin 1, Fin 0, Fin 0),
      q_arr = (Fin (1 / 2), Fin (1 / 2), Fin (1 / 2), Fin (1 / 2))\<rparr>"
    by (rule trans [OF arrays_changed_in_place [of "(Fin 2, Fin 0, Fin 0)" Madgwick_dict
          "[''beta'' \<mapsto> Fin 1, ''samplePeriod'' \<mapsto> Fin 1]" "(Fin 2, Fin 4, Fin 2)"
          "(Fin 2, Fin 0, Fin 0, Fin 0)" "(Fin 0, Fin 2, Fin 0)",
          THEN conjunct1, THEN mp, OF ev_norm(1)]])
      (simp only: ev_cfg ev_normalize ev_step_IMU ev_q_next)
  have c2: "updateMARG Madgwick_dict [''beta'' \<mapsto> Fin 1, ''samplePeriod'' \<mapsto> Fin 1]
     (Fin 2, Fin 2, Fin 4) (Fin 0, Fin 0, Fin 2) (Fin 0, Fin 2, Fin 0)
     (Fin 2, Fin 0, Fin 0, Fin 0) =
     \<lparr>ma_arr = (Fin 0, Fin 0, Fin 1), mm_arr = (Fin 0, Fin 1, Fin 0),
      mq_arr = (Fin (1 / 2), Fin (1 / 2), Fin (1 / 2), Fin (1 / 2))\<rparr>"
    by (rule trans [OF arrays_changed_in_place [of "(Fin 0, Fin 0, Fin 2)" Madgwick_dict
          "[''beta'' \<mapsto> Fin 1, ''samplePeriod'' \<mapsto> Fin 1]" "(Fin 2, Fin 2, Fin 4)"
          "(Fin 2, Fin 0, Fin 0, Fin 0)" "(Fin 0, Fin 2, Fin 0)",
          THEN conjunct2, THEN mp, OF h2]])
      (simp only: ev_cfg ev_normalize ev_step_MARG ev_q_next)
  show ?thesis
    using ev_norm h2 c1 c2 by blast
qed


section \<open>Inputs that are not finite\<close>

lemma is_fin_plusD: "is_fin (x + y) \<Longrightarrow> is_fin x \<and> is_fin y"
  by (cases x; cases y) simp_all

lemma is_fin_uminus [simp]: "is_fin (- x) \<longleftrightarrow> is_fin x"
  by (cases x) simp_all

lemma is_fin_minusD: "is_fin (x - y) \<Longrightarrow> is_fin x \<and> is_fin y"
  by (auto simp add: minus_f64_def dest: is_fin_plusD)

lemma is_fin_timesD: "is_fin (x * y) \<Longrightarrow> is_fin x \<and> is_fin y"
  by (cases x; cases y) (simp_all split: if_splits)

lemma not_neg_sq: "not_neg (x * x)"
  by (cases x) (simp_all add: rnd_nonneg)

lemma not_neg_plus: "not_neg s \<Longrightarrow> not_neg t \<Longrightarrow> not_neg (s + t)"
  by (cases s; cases t) (simp_all add: rnd_nonneg)

lemma pinf_or_nan_sq: "\<not> is_fin x \<Longrightarrow> pinf_or_nan (x * x)"
  by (cases x) (simp_all add: pinf_or_nan_def)

lemma pinf_or_nan_plus1: "pinf_or_nan s \<Longrightarrow> not_neg t \<Longrightarrow> pinf_or_nan (s + t)"
  by (cases t) (auto simp add: pinf_or_nan_def)

lemma pinf_or_nan_plus2: "not_neg s \<Longrightarrow> pinf_or_nan t \<Longrightarrow> pinf_or_nan (s + t)"
  by (cases s) (auto simp add: pinf_or_nan_def)

lemma pinf_or_nan_fsqrt: "pinf_or_nan s \<Longrightarrow> pinf_or_nan (fsqrt s)"
  by (auto simp add: pinf_or_nan_def)

lemma divide_pinf_or_nan: "\<not> is_fin x \<Longrightarrow> pinf_or_nan n \<Longrightarrow> x / n = NaN"
  by (cases x) (auto simp add: pinf_or_nan_def)

lemma pinf_or_nan_not_zero: "pinf_or_nan n \<Longrightarrow> n \<noteq> Fin 0"
  by (auto simp add: pinf_or_nan_def)

lemma norm3_not_fin:
  "\<not> (is_fin x \<and> is_fin y \<and> is_fin z) \<Longrightarrow> pinf_or_nan (fsqrt (x * x + y * y + z * z))"
proof -
  assume n: "\<not> (is_fin x \<and> is_fin y \<and> is_fin z)"
  consider "\<not> is_fin x" | "\<not> is_fin y" | "\<not> is_fin z" using n by blast
  then have "pinf_or_nan (x * x + y * y + z * z)"
  proof cases
    case 1
    then show ?thesis
      by (intro pinf_or_nan_plus1 pinf_or_nan_sq not_neg_sq)
  next
    case 2
    then show ?thesis
      by (intro pinf_or_nan_plus1 pinf_or_nan_plus2 pinf_or_nan_sq not_neg_sq)
  next
    case 3
    then show ?thesis
      by (intro pinf_or_nan_plus2 pinf_or_nan_sq not_neg_sq not_neg_plus)
  qed
  then show ?thesis by (rule pinf_or_nan_fsqrt)
qed

lemma norm4_not_fin:
  "\<not> (is_fin w \<and> is_fin x \<and> is_fin y \<and> is_fin z) \<Longrightarrow>
   pinf_or_nan (fsqrt (w * w + x * x + y * y + z * z))"
proof -
  assume n: "\<not> (is_fin w \<and> is_fin x \<and> is_fin y \<and> is_fin z)"
  consider "\<not> is_fin w" | "\<not> is_fin x" | "\<not> is_fin y" | "\<not> is_fin z" using n by blast
  then have "pinf_or_nan (w * w + x * x + y * y + z * z)"
  proof cases
    case 1
    then show ?thesis
      by (intro pinf_or_nan_plus1 pinf_or_nan_sq not_neg_sq)
  next
    case 2
    then show ?thesis
      by (intro pinf_or_nan_plus1 pinf_or_nan_plus2 pinf_or_nan_sq not_neg_sq)
  next
    case 3
    then show ?thesis
      by (intro pinf_or_nan_plus1 pinf_or_nan_plus2 pinf_or_nan_sq not_neg_sq not_neg_plus)
  next
    case 4
    then show ?thesis
      by (intro pinf_or_nan_plus2 pinf_or_nan_sq not_neg_sq not_neg_plus)
  qed
  then show ?thesis by (rule pinf_or_nan_fsqrt)
qed

lemma normalize3_not_fin: "\<not> fin3 a \<Longrightarrow> has_nan3 (normalize3 a)"
proof -
  assume n: "\<not> fin3 a"
  obtain x y z where a: "a = (x, y, z)" by (cases a)
  have p: "pinf_or_nan (fsqrt (x * x + y * y + z * z))"
    using n by (intro norm3_not_fin) (simp add: a)
  show ?thesis
    using n p by (auto simp add: a divide_pinf_or_nan)
qed

lemma linalg_norm3_not_fin: "\<not> fin3 a \<Longrightarrow> linalg_norm3 a \<noteq> Fin 0"
proof -
  assume n: "\<not> fin3 a"
  obtain x y z where a: "a = (x, y, z)" by (cases a)
  have "pinf_or_nan (fsqrt (x * x + y * y + z * z))"
    using n by (intro norm3_not_fin) (simp add: a)
  then show ?thesis
    by (simp add: a pinf_or_nan_not_zero)
qed

lemma normalize4_has_nan: "has_nan4 v \<Longrightarrow> normalize4 v = qNaN"
proof -
  assume n: "has_nan4 v"
  obtain w x y z where v: "v = (w, x, y, z)" by (cases v)
  show ?thesis
    using n unfolding v qNaN_def by auto
qed

lemma normalize4_qNaN: "normalize4 qNaN = qNaN"
  by (simp add: qNaN_def)

lemma normalize4_not_fin: "\<not> fin4 q \<Longrightarrow> has_nan4 (normalize4 q)"
proof -
  assume n: "\<not> fin4 q"
  obtain w x y z where q: "q = (w, x, y, z)" by (cases q)
  have p: "pinf_or_nan (fsqrt (w * w + x * x + y * y + z * z))"
    using n by (intro norm4_not_fin) (simp add: q)
  show ?thesis
    using n p by (auto simp add: q divide_pinf_or_nan)
qed

lemma normalize4_no_fin: "no_fin4 v \<Longrightarrow> normalize4 v = qNaN"
proof -
  assume n: "no_fin4 v"
  obtain w x y z where v: "v = (w, x, y, z)" by (cases v)
  have p: "pinf_or_nan (fsqrt (w * w + x * x + y * y + z * z))"
    using n by (intro norm4_not_fin) (simp add: v)
  show ?thesis
    using n p by (simp add: v qNaN_def divide_pinf_or_nan)
qed

lemma step_IMU_has_nan: "has_nan3 a \<Longrightarrow> JT_F3 (J_IMU q) (F_IMU q a) = qNaN"
proof -
  assume n: "has_nan3 a"
  obtain a0 a1 a2 where a: "a = (a0, a1, a2)" by (cases a)
  obtain w x y z where q: "q = (w, x, y, z)" by (cases q)
  show ?thesis
    using n unfolding a q qNaN_def by auto
qed

lemma step_MARG_has_nan:
  "has_nan3 a \<or> has_nan3 m \<Longrightarrow> JT_F6 (J_MARG q b) (F_MARG q b a m) = qNaN"
proof -
  assume n: "has_nan3 a \<or> has_nan3 m"
  obtain a0 a1 a2 where a: "a = (a0, a1, a2)" by (cases a)
  obtain m0 m1 m2 where m: "m = (m0, m1, m2)" by (cases m)
  obtain w x y z where q: "q = (w, x, y, z)" by (cases q)
  obtain b0 b1 b2 b3 where b: "b = (b0, b1, b2, b3)" by (cases b)
  show ?thesis
    using n unfolding a m q b qNaN_def by auto
qed

lemma q_next_spec_step_NaN: "q_next_spec beta samplePeriod g q qNaN = qNaN"
proof -
  obtain w x y z where q: "q = (w, x, y, z)" by (cases q)
  obtain gx gy gz where g: "g = (gx, gy, gz)" by (cases g)
  obtain p0 p1 p2 p3 where p: "q_prod (w, x, y, z) (Fin 0, gx, gy, gz) = (p0, p1, p2, p3)"
    by (cases "q_prod (w, x, y, z) (Fin 0, gx, gy, gz)")
  show ?thesis
    unfolding q g qNaN_def
    by (simp only: q_next_spec.simps qDot_spec.simps p prod.case) simp
qed

lemma q_next_spec_q_has_nan: "has_nan4 q \<Longrightarrow> q_next_spec beta samplePeriod g q step = qNaN"
proof -
  assume n: "has_nan4 q"
  obtain w x y z where q: "q = (w, x, y, z)" by (cases q)
  obtain d0 d1 d2 d3 where d: "qDot_spec beta g (w, x, y, z) step = (d0, d1, d2, d3)"
    by (cases "qDot_spec beta g (w, x, y, z) step")
  have "has_nan4 (w + d0 * samplePeriod, x + d1 * samplePeriod,
                  y + d2 * samplePeriod, z + d3 * samplePeriod)"
    using n unfolding q by auto
  then show ?thesis
    unfolding q by (simp only: q_next_spec.simps d prod.case normalize4_has_nan)
qed

lemma q_next_spec_g_not_fin: "\<not> fin3 g \<Longrightarrow> q_next_spec beta samplePeriod g q step = qNaN"
proof -
  assume n: "\<not> fin3 g"
  obtain w x y z where q: "q = (w, x, y, z)" by (cases q)
  obtain gx gy gz where g: "g = (gx, gy, gz)" by (cases g)
  obtain s0 s1 s2 s3 where s: "step = (s0, s1, s2, s3)" by (cases step)
  obtain d0 d1 d2 d3 where d: "qDot_spec beta (gx, gy, gz) (w, x, y, z) (s0, s1, s2, s3) =
      (d0, d1, d2, d3)"
    by (cases "qDot_spec beta (gx, gy, gz) (w, x, y, z) (s0, s1, s2, s3)")
  have nd: "\<not> is_fin d0 \<and> \<not> is_fin d1 \<and> \<not> is_fin d2 \<and> \<not> is_fin d3"
    using n d unfolding g
    by (auto dest!: is_fin_plusD is_fin_minusD is_fin_timesD)
  have "no_fin4 (w + d0 * samplePeriod, x + d1 * samplePeriod,
                 y + d2 * samplePeriod, z + d3 * samplePeriod)"
    using nd by (auto dest!: is_fin_plusD is_fin_timesD)
  then show ?thesis
    unfolding q g s by (simp only: q_next_spec.simps d prod.case normalize4_no_fin)
qed

text \<open>
  C7, as the claim states it, fails: neither update checks its inputs and neither has an
  error outcome. With a NaN or an infinity in the accelerometer sample, or a NaN in the
  magnetometer sample, the call returns, and returns a quaternion of four NaN.
\<close>

theorem non_finite_input_counterexample:
  "updateIMU Madgwick_dict Map.empty (Fin 0, Fin 0, Fin 0) (NaN, Fin 0, Fin 1)
     (Fin 1, Fin 0, Fin 0, Fin 0) =
     \<lparr>a_arr = (NaN, NaN, NaN), q_arr = (NaN, NaN, NaN, NaN)\<rparr> \<and>
   updateIMU Madgwick_dict Map.empty (Fin 0, Fin 0, Fin 0) (PInf, Fin 0, Fin 1)
     (Fin 1, Fin 0, Fin 0, Fin 0) =
     \<lparr>a_arr = (NaN, Fin 0, Fin 0), q_arr = (NaN, NaN, NaN, NaN)\<rparr> \<and>
   updateMARG Madgwick_dict Map.empty (Fin 0, Fin 0, Fin 0) (Fin 0, Fin 0, Fin 1)
     (NaN, Fin 0, Fin 0) (Fin 1, Fin 0, Fin 0, Fin 0) =
     \<lparr>ma_arr = (Fin 0, Fin 0, Fin 1), mm_arr = (NaN, NaN, NaN),
      mq_arr = (NaN, NaN, NaN, NaN)\<rparr>"
  by (simp add: updateIMU_def updateMARG_def Let_def read_beta_def read_samplePeriod_def
      Madgwick_dict_def)

text \<open>
  C7, amended. A NaN or an infinity in the gyroscope sample, the accelerometer sample, the
  magnetometer sample or the quaternion is not reported: when no zero-norm early return is
  taken, the call returns the quaternion of four NaN. (Under an early return it returns the
  quaternion it was given, see C3.)
\<close>

theorem non_finite_input_gives_NaN:
  "(\<not> (fin3 g \<and> fin3 a \<and> fin4 q) \<and> linalg_norm3 a \<noteq> Fin 0 \<longrightarrow>
      q_arr (updateIMU self kwargs g a q) = (NaN, NaN, NaN, NaN)) \<and>
   (\<not> (fin3 g \<and> fin3 a \<and> fin3 m \<and> fin4 q) \<and>
    linalg_norm3 a \<noteq> Fin 0 \<and> linalg_norm3 m \<noteq> Fin 0 \<longrightarrow>
      mq_arr (updateMARG self kwargs g a m q) = (NaN, NaN, NaN, NaN))"
proof -
  have imu: "q_arr (updateIMU self kwargs g a q) = qNaN"
    if nf: "\<not> (fin3 g \<and> fin3 a \<and> fin4 q)" and na: "linalg_norm3 a \<noteq> Fin 0"
  proof -
    consider "\<not> fin3 a" | "\<not> fin4 q" | "\<not> fin3 g" using nf by blast
    then show ?thesis
    proof cases
      case 1
      show ?thesis
        by (simp only: updateIMU_unfold [OF na] imu_arrays.select_convs
            step_IMU_has_nan [OF normalize3_not_fin [OF 1]] normalize4_qNaN
            q_next_spec_step_NaN)
    next
      case 2
      show ?thesis
        by (simp only: updateIMU_unfold [OF na] imu_arrays.select_convs
            q_next_spec_q_has_nan [OF normalize4_not_fin [OF 2]])
    next
      case 3
      show ?thesis
        by (simp only: updateIMU_unfold [OF na] imu_arrays.select_convs
            q_next_spec_g_not_fin [OF 3])
    qed
  qed
  have marg: "mq_arr (updateMARG self kwargs g a m q) = qNaN"
    if nf: "\<not> (fin3 g \<and> fin3 a \<and> fin3 m \<and> fin4 q)"
      and na: "linalg_norm3 a \<noteq> Fin 0" and nm: "linalg_norm3 m \<noteq> Fin 0"
  proof -
    consider "\<not> fin3 a \<or> \<not> fin3 m" | "\<not> fin4 q" | "\<not> fin3 g" using nf by blast
    then show ?thesis
    proof cases
      case 1
      then have hn: "has_nan3 (normalize3 a) \<or> has_nan3 (normalize3 m)"
        using normalize3_not_fin by blast
      show ?thesis
        by (simp only: updateMARG_unfold [OF na nm] marg_arrays.select_convs
            step_MARG_has_nan [OF hn] normalize4_qNaN q_next_spec_step_NaN)
    next
      case 2
      show ?thesis
        by (simp only: updateMARG_unfold [OF na nm] marg_arrays.select_convs
            q_next_spec_q_has_nan [OF normalize4_not_fin [OF 2]])
    next
      case 3
      show ?thesis
        by (simp only: updateMARG_unfold [OF na nm] marg_arrays.select_convs
            q_next_spec_g_not_fin [OF 3])
    qed
  qed
  show ?thesis using imu marg by (simp add: qNaN_def)
qed

theorem non_finite_input_gives_NaN_witness:
  "\<not> (fin3 (Fin 0, PInf, Fin 0) \<and> fin3 (Fin 0, Fin 0, Fin 1) \<and> fin4 (Fin 1, Fin 0, Fin 0, Fin 0)) \<and>
   linalg_norm3 (Fin 0, Fin 0, Fin 1) \<noteq> Fin 0 \<and>
   q_arr (updateIMU Madgwick_dict Map.empty (Fin 0, PInf, Fin 0) (Fin 0, Fin 0, Fin 1)
            (Fin 1, Fin 0, Fin 0, Fin 0)) = (NaN, NaN, NaN, NaN) \<and>
   \<not> (fin3 (Fin 0, Fin 0, Fin 0) \<and> fin3 (Fin 0, Fin 0, Fin 1) \<and> fin3 (Fin 0, Fin 1, Fin 0) \<and>
      fin4 (Fin 1, NInf, Fin 0, Fin 0)) \<and>
   linalg_norm3 (Fin 0, Fin 1, Fin 0) \<noteq> Fin 0 \<and>
   mq_arr (updateMARG Madgwick_dict Map.empty (Fin 0, Fin 0, Fin 0) (Fin 0, Fin 0, Fin 1)
            (Fin 0, Fin 1, Fin 0) (Fin 1, NInf, Fin 0, Fin 0)) = (NaN, NaN, NaN, NaN)"
proof -
  have h1: "\<not> (fin3 (Fin 0, PInf, Fin 0) \<and> fin3 (Fin 0, Fin 0, Fin 1) \<and>
      fin4 (Fin 1, Fin 0, Fin 0, Fin 0)) \<and> linalg_norm3 (Fin 0, Fin 0, Fin 1) \<noteq> Fin 0"
    by simp
  have h2: "\<not> (fin3 (Fin 0, Fin 0, Fin 0) \<and> fin3 (Fin 0, Fin 0, Fin 1) \<and>
      fin3 (Fin 0, Fin 1, Fin 0) \<and> fin4 (Fin 1, NInf, Fin 0, Fin 0)) \<and>
      linalg_norm3 (Fin 0, Fin 0, Fin 1) \<noteq> Fin 0 \<and> linalg_norm3 (Fin 0, Fin 1, Fin 0) \<noteq> Fin 0"
    by simp
  show ?thesis
    using h1 h2
      non_finite_input_gives_NaN [of "(Fin 0, PInf, Fin 0)" "(Fin 0, Fin 0, Fin 1)"
        "(Fin 1, Fin 0, Fin 0, Fin 0)" Madgwick_dict Map.empty "(Fin 0, Fin 1, Fin 0)",
        THEN conjunct1, THEN mp, OF h1]
      non_finite_input_gives_NaN [of "(Fin 0, Fin 0, Fin 0)" "(Fin 0, Fin 0, Fin 1)"
        "(Fin 1, NInf, Fin 0, Fin 0)" Madgwick_dict Map.empty "(Fin 0, Fin 1, Fin 0)",
        THEN conjunct2, THEN mp, OF h2]
    by blast
qed


section \<open>Scaling a sample\<close>

lemma ev_scale: "scale3 (1 / 2 ^ 600) (Fin 1, Fin 0, Fin 0) = (Fin (1 / 2 ^ 600), Fin 0, Fin 0)"
proof -
  have "(2::real) ^ 600 < 2 ^ 1075" by (rule power_strict_increasing) simp_all
  then have lo: "(1::real) / 2 ^ 1075 < \<bar>1 / 2 ^ 600\<bar>"
    by (simp add: frac_less2)
  have "(1::real) / 2 ^ 600 \<le> 1" by simp
  moreover have "(1::real) < 2 ^ 1024 - 2 ^ 970" by simp
  ultimately have hi: "\<bar>(1::real) / 2 ^ 600\<bar> < 2 ^ 1024 - 2 ^ 970" by simp
  have "rnd (1 / 2 ^ 600) = Fin (1 / 2 ^ 600)"
    using lo hi by (rule rnd_exact)
  then show ?thesis
    by (simp only: scale3_def smul3.simps times_f64.simps mult_1_right mult_zero_right rnd_0)
qed

lemma ev_tiny_norm: "linalg_norm3 (Fin (1 / 2 ^ 600), Fin 0, Fin 0) = Fin 0"
  by (simp only: linalg_norm3.simps ev_small) simp

lemma ev_unscaled:
  "q_arr (updateIMU Madgwick_dict [''beta'' \<mapsto> Fin 1, ''samplePeriod'' \<mapsto> Fin 1]
            (Fin 2, Fin 4, Fin 2) (Fin 1, Fin 0, Fin 0) (Fin 1, Fin 0, Fin 0, Fin 0)) =
     (Fin (1 / 2), Fin (1 / 2), Fin (1 / 2), Fin (1 / 2))"
proof -
  have n: "linalg_norm3 (Fin 1, Fin 0, Fin 0) \<noteq> Fin 0"
    by simp
  have e: "normalize4 (Fin 1, Fin 0, Fin 0, Fin 0) = (Fin 1, Fin 0, Fin 0, Fin 0)"
    "normalize3 (Fin 1, Fin 0, Fin 0) = (Fin 1, Fin 0, Fin 0)"
    by simp_all
  show ?thesis
    by (simp only: updateIMU_unfold [OF n] imu_arrays.select_convs e ev_cfg ev_step_IMU
        ev_q_next)
qed


lemma normalize3_scaled:
  assumes c: "0 < c"
    and n: "linalg_norm3 (Fin x, Fin y, Fin z) = Fin n"
    and cn: "linalg_norm3 (Fin (c * x), Fin (c * y), Fin (c * z)) = Fin (c * n)"
    and nz: "n \<noteq> 0"
  shows "normalize3 (Fin (c * x), Fin (c * y), Fin (c * z)) = normalize3 (Fin x, Fin y, Fin z)"
proof -
  have e: "c * t / (c * n) = t / n" for t
    using c by simp
  have "idiv3 (Fin (c * x), Fin (c * y), Fin (c * z)) (Fin (c * n)) =
        idiv3 (Fin x, Fin y, Fin z) (Fin n)"
    using c nz by (simp add: e)
  then show ?thesis
    by (simp only: normalize3_eq n cn)
qed



end
